theory Spec2Isabelle
  imports Complex_Main
begin

section \<open>Numbers of the forecasting module\<close>

text \<open>
  The module computes with numpy/pandas double-precision values.  They are modelled
  as exact real numbers extended with the three special values that decide the
  behaviour of the code: the two infinities and NaN (pandas' marker for an undefined
  cell).  Rounding is not modelled, and zero carries no sign: a non-zero number
  divided by zero takes the sign of the numerator.
\<close>

datatype fl = Fin real | PInf | NInf | NaN

datatype error = ValueError string | IndexError | KeyError string | OverflowError

fun isna :: "fl \<Rightarrow> bool" where
  "isna NaN = True"
| "isna _ = False"

fun fl_neg :: "fl \<Rightarrow> fl" where
  "fl_neg (Fin x) = Fin (- x)"
| "fl_neg PInf = NInf"
| "fl_neg NInf = PInf"
| "fl_neg NaN = NaN"

fun fl_add :: "fl \<Rightarrow> fl \<Rightarrow> fl" where
  "fl_add NaN _ = NaN"
| "fl_add _ NaN = NaN"
| "fl_add (Fin x) (Fin y) = Fin (x + y)"
| "fl_add PInf NInf = NaN"
| "fl_add NInf PInf = NaN"
| "fl_add PInf _ = PInf"
| "fl_add _ PInf = PInf"
| "fl_add NInf _ = NInf"
| "fl_add _ NInf = NInf"

definition fl_sub :: "fl \<Rightarrow> fl \<Rightarrow> fl" where
  "fl_sub a b = fl_add a (fl_neg b)"

fun fl_mul :: "fl \<Rightarrow> fl \<Rightarrow> fl" where
  "fl_mul NaN _ = NaN"
| "fl_mul _ NaN = NaN"
| "fl_mul (Fin x) (Fin y) = Fin (x * y)"
| "fl_mul (Fin x) PInf = (if 0 < x then PInf else if x < 0 then NInf else NaN)"
| "fl_mul (Fin x) NInf = (if 0 < x then NInf else if x < 0 then PInf else NaN)"
| "fl_mul PInf (Fin y) = (if 0 < y then PInf else if y < 0 then NInf else NaN)"
| "fl_mul NInf (Fin y) = (if 0 < y then NInf else if y < 0 then PInf else NaN)"
| "fl_mul PInf PInf = PInf"
| "fl_mul PInf NInf = NInf"
| "fl_mul NInf PInf = NInf"
| "fl_mul NInf NInf = PInf"

fun fl_div :: "fl \<Rightarrow> fl \<Rightarrow> fl" where
  "fl_div NaN _ = NaN"
| "fl_div _ NaN = NaN"
| "fl_div (Fin x) (Fin y) =
     (if y \<noteq> 0 then Fin (x / y)
      else if 0 < x then PInf else if x < 0 then NInf else NaN)"
| "fl_div (Fin x) PInf = Fin 0"
| "fl_div (Fin x) NInf = Fin 0"
| "fl_div PInf (Fin y) = (if 0 \<le> y then PInf else NInf)"
| "fl_div NInf (Fin y) = (if 0 \<le> y then NInf else PInf)"
| "fl_div PInf PInf = NaN"
| "fl_div PInf NInf = NaN"
| "fl_div NInf PInf = NaN"
| "fl_div NInf NInf = NaN"

fun fl_sqrt :: "fl \<Rightarrow> fl" where
  "fl_sqrt (Fin x) = (if 0 \<le> x then Fin (sqrt x) else NaN)"
| "fl_sqrt PInf = PInf"
| "fl_sqrt NInf = NaN"
| "fl_sqrt NaN = NaN"

fun fl_abs :: "fl \<Rightarrow> fl" where
  "fl_abs (Fin x) = Fin \<bar>x\<bar>"
| "fl_abs PInf = PInf"
| "fl_abs NInf = PInf"
| "fl_abs NaN = NaN"

text \<open>Comparisons: every comparison with NaN is false.\<close>

fun fl_less :: "fl \<Rightarrow> fl \<Rightarrow> bool" where
  "fl_less NaN _ = False"
| "fl_less _ NaN = False"
| "fl_less (Fin x) (Fin y) = (x < y)"
| "fl_less (Fin x) PInf = True"
| "fl_less NInf (Fin y) = True"
| "fl_less NInf PInf = True"
| "fl_less _ _ = False"

definition fl_gt :: "fl \<Rightarrow> fl \<Rightarrow> bool" where
  "fl_gt a b = fl_less b a"

fun fl_le :: "fl \<Rightarrow> fl \<Rightarrow> bool" where
  "fl_le NaN _ = False"
| "fl_le _ NaN = False"
| "fl_le (Fin x) (Fin y) = (x \<le> y)"
| "fl_le PInf (Fin y) = False"
| "fl_le (Fin x) NInf = False"
| "fl_le PInf NInf = False"
| "fl_le _ _ = True"

definition fl_sum :: "fl list \<Rightarrow> fl" where
  "fl_sum xs = foldl fl_add (Fin 0) xs"

definition fl_sq :: "fl \<Rightarrow> fl" where
  "fl_sq x = fl_mul x x"

text \<open>\<open>np.mean\<close> of a Python list: no value is skipped, the empty list gives NaN.\<close>

definition np_mean :: "fl list \<Rightarrow> fl" where
  "np_mean xs = fl_div (fl_sum xs) (Fin (real (length xs)))"

text \<open>\<open>Series.mean()\<close> and \<open>Series.std()\<close> of pandas: NaN cells are skipped, the
  standard deviation is the sample one (\<open>ddof = 1\<close>) and is NaN for fewer than two
  values.\<close>

definition pd_mean :: "fl list \<Rightarrow> fl" where
  "pd_mean xs =
     (let ys = filter (\<lambda>x. \<not> isna x) xs
      in if ys = [] then NaN else fl_div (fl_sum ys) (Fin (real (length ys))))"

definition pd_std :: "fl list \<Rightarrow> fl" where
  "pd_std xs =
     (let ys = filter (\<lambda>x. \<not> isna x) xs; n = length ys
      in if n < 2 then NaN
         else let m = fl_div (fl_sum ys) (Fin (real n))
              in fl_sqrt (fl_div (fl_sum (map (\<lambda>y. fl_sq (fl_sub y m)) ys))
                                 (Fin (real (n - 1)))))"

text \<open>\<open>Series.tail(k)\<close>: the last \<open>k\<close> cells.\<close>

definition tail :: "nat \<Rightarrow> 'a list \<Rightarrow> 'a list" where
  "tail k xs = drop (length xs - k) xs"

text \<open>\<open>Series.shift(k)\<close>: every cell moves down \<open>k\<close> places; the first \<open>k\<close> are NaN.\<close>

definition shift :: "nat \<Rightarrow> fl list \<Rightarrow> fl list" where
  "shift k xs = replicate (min k (length xs)) NaN @ take (length xs - k) xs"

text \<open>\<open>Series.rolling(window=w)\<close>: the window of row \<open>i\<close> holds the \<open>w\<close> observations
  that end at row \<open>i\<close>, row \<open>i\<close> included; with the default \<open>min_periods = w\<close> the
  statistic is NaN while fewer than \<open>w\<close> observations are available.\<close>

definition window :: "nat \<Rightarrow> nat \<Rightarrow> 'a list \<Rightarrow> 'a list" where
  "window w i xs = take w (drop (Suc i - w) xs)"

definition rolling_mean :: "nat \<Rightarrow> real list \<Rightarrow> fl list" where
  "rolling_mean w xs =
     map (\<lambda>i. if Suc i < w then NaN else pd_mean (map Fin (window w i xs))) [0..<length xs]"

definition rolling_std :: "nat \<Rightarrow> real list \<Rightarrow> fl list" where
  "rolling_std w xs =
     map (\<lambda>i. if Suc i < w then NaN else pd_std (map Fin (window w i xs))) [0..<length xs]"

text \<open>\<open>fillna(method='bfill')\<close> copies into a NaN cell the nearest later value that is
  defined, \<open>fillna(method='ffill')\<close> the nearest earlier one; both work inside one column.\<close>

fun bfill :: "fl list \<Rightarrow> fl list" where
  "bfill [] = []"
| "bfill (x # xs) =
     (let r = bfill xs
      in (if isna x then (case r of [] \<Rightarrow> NaN | y # _ \<Rightarrow> y) else x) # r)"

fun ffill_from :: "fl \<Rightarrow> fl list \<Rightarrow> fl list" where
  "ffill_from prev [] = []"
| "ffill_from prev (x # xs) =
     (let v = (if isna x then prev else x) in v # ffill_from v xs)"

definition ffill :: "fl list \<Rightarrow> fl list" where
  "ffill xs = ffill_from NaN xs"

definition fillna0 :: "fl \<Rightarrow> fl" where
  "fillna0 x = (if isna x then Fin 0 else x)"

section \<open>Dates and grouping\<close>

text \<open>
  A date is its day number (the proleptic Gregorian ordinal of Python's
  \<open>date.toordinal\<close>); adding \<open>timedelta(days=1)\<close> adds one.
\<close>

definition dayofweek :: "int \<Rightarrow> int" where
  "dayofweek d = (d + 6) mod 7"

definition month_of :: "int \<Rightarrow> int" where
  "month_of d =
     (let doe = (d + 305) mod 146097;
          yoe = (doe - doe div 1460 + doe div 36524 - doe div 146096) div 365;
          doy = doe - (365 * yoe + yoe div 4 - yoe div 100);
          mp = (5 * doy + 2) div 153
      in if mp < 10 then mp + 3 else mp - 9)"

definition quarter_of :: "int \<Rightarrow> int" where
  "quarter_of d = (month_of d - 1) div 3 + 1"

fun list_max :: "int list \<Rightarrow> int" where
  "list_max [] = 0"
| "list_max (x # xs) = foldl max x xs"

text \<open>\<open>groupby('date')[col].sum()\<close>: one row per distinct date, dates ascending, the
  values of a date added up.\<close>

fun insert_group :: "int \<times> real \<Rightarrow> (int \<times> real) list \<Rightarrow> (int \<times> real) list" where
  "insert_group (d, q) [] = [(d, q)]"
| "insert_group (d, q) ((d', q') # rest) =
     (if d = d' then (d', q' + q) # rest
      else if d < d' then (d, q) # (d', q') # rest
      else (d', q') # insert_group (d, q) rest)"

definition groupby_sum :: "(int \<times> real) list \<Rightarrow> (int \<times> real) list" where
  "groupby_sum rows = foldl (\<lambda>acc r. insert_group r acc) [] rows"

section \<open>Inventory optimizer\<close>

record inventory_params =
  daily_demand :: fl
  demand_std :: fl
  reorder_point :: fl
  safety_stock :: fl
  economic_order_quantity :: fl
  lead_time_days :: nat
  service_level :: real

text \<open>\<open>DemandForecaster.optimize_inventory\<close>; \<open>df\<close> is the list of its (date, quantity)
  rows.\<close>

definition optimize_inventory :: "(int \<times> real) list \<Rightarrow> real \<Rightarrow> real \<Rightarrow> inventory_params" where
  "optimize_inventory df holding_cost stockout_cost =
     (let daily_sales = map (\<lambda>r. Fin (snd r)) (groupby_sum df);
          daily_demand = pd_mean daily_sales;
          demand_std = pd_std daily_sales;
          lead_time = (7::nat);
          lead_time_demand = fl_mul daily_demand (Fin (real lead_time));
          lead_time_std = fl_mul demand_std (Fin (sqrt (real lead_time)));
          safety_stock = fl_mul (Fin 1.645) lead_time_std;
          reorder_point = fl_add lead_time_demand safety_stock;
          annual_demand = fl_mul daily_demand (Fin 365);
          ordering_cost = Fin 100;
          eoq = fl_sqrt (fl_div (fl_mul (fl_mul (Fin 2) annual_demand) ordering_cost)
                                (Fin (holding_cost * 365)))
      in \<lparr> daily_demand = daily_demand,
           demand_std = demand_std,
           reorder_point = reorder_point,
           safety_stock = safety_stock,
           economic_order_quantity = eoq,
           lead_time_days = lead_time,
           service_level = 0.95 \<rparr>)"

section \<open>Feature builder\<close>

text \<open>A row of the sales frame read from the database; only the columns the feature
  builder reads are kept.  Quantities and revenues read from the sales table are
  finite numbers.\<close>

record sale =
  saleDate :: int
  sale_quantity :: real
  sale_totalRevenue :: real

text \<open>A row of the daily feature frame.  The forecaster appends rows without a
  \<open>totalRevenue\<close> cell, which pandas fills with NaN.\<close>

record feature_row =
  date :: int
  quantity :: fl
  totalRevenue :: fl
  quantity_lag1 :: fl
  quantity_lag7 :: fl
  quantity_lag30 :: fl
  quantity_rolling_mean_7 :: fl
  quantity_rolling_std_7 :: fl
  quantity_rolling_mean_30 :: fl
  day_of_week :: int
  month :: int
  quarter :: int

text \<open>\<open>DemandForecaster.create_features\<close>.  The calendar columns added to the copy of
  the input frame are not part of the returned daily frame and are left out.\<close>

definition fill :: "fl list \<Rightarrow> fl list" where
  "fill col = ffill (bfill col)"

definition create_features :: "sale list \<Rightarrow> feature_row list" where
  "create_features df =
     (let agg_q = groupby_sum (map (\<lambda>r. (saleDate r, sale_quantity r)) df);
          agg_r = groupby_sum (map (\<lambda>r. (saleDate r, sale_totalRevenue r)) df);
          dates = map fst agg_q;
          qty = map snd agg_q;
          c_quantity = fill (map Fin qty);
          c_revenue = fill (map (\<lambda>r. Fin (snd r)) agg_r);
          c_lag1 = fill (shift 1 (map Fin qty));
          c_lag7 = fill (shift 7 (map Fin qty));
          c_lag30 = fill (shift 30 (map Fin qty));
          c_mean7 = fill (rolling_mean 7 qty);
          c_std7 = fill (rolling_std 7 qty);
          c_mean30 = fill (rolling_mean 30 qty)
      in map (\<lambda>i. \<lparr> date = dates ! i,
                      quantity = c_quantity ! i,
                      totalRevenue = c_revenue ! i,
                      quantity_lag1 = c_lag1 ! i,
                      quantity_lag7 = c_lag7 ! i,
                      quantity_lag30 = c_lag30 ! i,
                      quantity_rolling_mean_7 = c_mean7 ! i,
                      quantity_rolling_std_7 = c_std7 ! i,
                      quantity_rolling_mean_30 = c_mean30 ! i,
                      day_of_week = dayofweek (dates ! i),
                      month = month_of (dates ! i),
                      quarter = quarter_of (dates ! i) \<rparr>)
             [0..<length dates])"

section \<open>Model trainer\<close>

text \<open>The regression model, the scaler and the metrics are scikit-learn's; they are
  parameters of the embedding.\<close>

record model =
  predict :: "fl list \<Rightarrow> fl"
  feature_importances :: "real list"

type_synonym scaler = "fl list \<Rightarrow> fl list"

record sklearn =
  fit_scaler :: "fl list list \<Rightarrow> scaler"
  fit_model :: "string \<Rightarrow> fl list list \<Rightarrow> fl list \<Rightarrow> model"
  r2_score :: "fl list \<Rightarrow> fl list \<Rightarrow> fl"
  mean_absolute_error :: "fl list \<Rightarrow> fl list \<Rightarrow> fl"
  mean_squared_error :: "fl list \<Rightarrow> fl list \<Rightarrow> fl"

record forecaster =
  scalers :: "string \<rightharpoonup> scaler"
  feature_importance :: "string \<rightharpoonup> (string \<times> real) list"

record metrics =
  r2 :: fl
  mae :: fl
  rmse :: fl

definition feature_cols :: "string list" where
  "feature_cols =
     [''quantity_lag1'', ''quantity_lag7'', ''quantity_lag30'',
      ''quantity_rolling_mean_7'', ''quantity_rolling_std_7'',
      ''quantity_rolling_mean_30'', ''day_of_week'', ''month'', ''quarter'']"

definition feature_vector :: "feature_row \<Rightarrow> fl list" where
  "feature_vector r =
     [quantity_lag1 r, quantity_lag7 r, quantity_lag30 r,
      quantity_rolling_mean_7 r, quantity_rolling_std_7 r,
      quantity_rolling_mean_30 r,
      Fin (real_of_int (day_of_week r)), Fin (real_of_int (month r)),
      Fin (real_of_int (quarter r))]"

text \<open>\<open>X = df[feature_cols].fillna(0)\<close>, one vector per row.\<close>

definition X_of :: "feature_row \<Rightarrow> fl list" where
  "X_of r = map fillna0 (feature_vector r)"

text \<open>The rows that pass \<open>mask = ~(X.isna().any(axis=1) | y.isna())\<close>, in their order.\<close>

definition train_rows :: "feature_row list \<Rightarrow> feature_row list" where
  "train_rows df = filter (\<lambda>r. \<not> (list_ex isna (X_of r) \<or> isna (quantity r))) df"

text \<open>\<open>int(len(X) * 0.8)\<close>.\<close>

definition train_size :: "nat \<Rightarrow> nat" where
  "train_size n = nat \<lfloor>real n * 0.8\<rfloor>"

definition train_model ::
  "sklearn \<Rightarrow> forecaster \<Rightarrow> feature_row list \<Rightarrow> string \<Rightarrow> (error + model \<times> metrics) \<times> forecaster" where
  "train_model lib self df model_type =
     (let rows = train_rows df;
          X = map X_of rows;
          y = map quantity rows
      in if length X < 100
         then (Inl (ValueError ''Insufficient data for model training''), self)
         else
           (let k = train_size (length X);
                X_train = take k X; X_test = drop k X;
                y_train = take k y; y_test = drop k y;
                scaler = fit_scaler lib X_train;
                X_train_scaled = map scaler X_train;
                X_test_scaled = map scaler X_test;
                model = fit_model lib model_type X_train_scaled y_train;
                y_pred = map (predict model) X_test_scaled;
                m = \<lparr> r2 = r2_score lib y_test y_pred,
                      mae = mean_absolute_error lib y_test y_pred,
                      rmse = fl_sqrt (mean_squared_error lib y_test y_pred) \<rparr>;
                self' = self \<lparr> scalers := (scalers self)(''demand'' \<mapsto> scaler),
                               feature_importance := (feature_importance self)
                                 (''demand'' \<mapsto> zip feature_cols (feature_importances model)) \<rparr>
            in (Inr (model, m), self')))"

section \<open>Forecaster\<close>

record forecast =
  forecast_date :: int
  predicted_quantity :: fl
  confidence_interval_lower :: fl
  confidence_interval_upper :: fl

text \<open>\<open>max(0, x)\<close> of Python keeps its first argument unless the second is greater.\<close>

definition py_max0 :: "fl \<Rightarrow> fl" where
  "py_max0 x = (if fl_gt x (Fin 0) then x else Fin 0)"

text \<open>One pass through the body of the loop, up to the two frames it builds: the
  forecast of the next day and the row appended to \<open>current_data\<close>.  An empty
  \<open>current_data\<close> fails at \<open>iloc[-1]\<close>, a forecaster without a fitted scaler at
  \<open>self.scalers['demand']\<close>.\<close>

definition forecast_step ::
  "forecaster \<Rightarrow> model \<Rightarrow> feature_row list \<Rightarrow> error + forecast \<times> feature_row" where
  "forecast_step self mdl current_data =
     (if current_data = [] then Inl IndexError
      else
        (let next_date = list_max (map date current_data) + 1;
             q = map quantity current_data;
             n = length q;
             lag1 = last q;
             lag7 = (if n \<ge> 7 then q ! (n - 7) else pd_mean q);
             lag30 = (if n \<ge> 30 then q ! (n - 30) else pd_mean q);
             mean7 = pd_mean (tail 7 q);
             std7 = pd_std (tail 7 q);
             mean30 = pd_mean (tail 30 q);
             X_new = [lag1, lag7, lag30, mean7, std7, mean30,
                      Fin (real_of_int (dayofweek next_date)),
                      Fin (real_of_int (month_of next_date)),
                      Fin (real_of_int (quarter_of next_date))]
         in case scalers self ''demand'' of
              None \<Rightarrow> Inl (KeyError ''demand'')
            | Some scaler \<Rightarrow>
               (let predicted = py_max0 (predict mdl (scaler X_new))
                in Inr (\<lparr> forecast_date = next_date,
                           predicted_quantity = predicted,
                           confidence_interval_lower = fl_mul predicted (Fin 0.8),
                           confidence_interval_upper = fl_mul predicted (Fin 1.2) \<rparr>,
                        \<lparr> date = next_date,
                           quantity = predicted,
                           totalRevenue = NaN,
                           quantity_lag1 = lag1,
                           quantity_lag7 = lag7,
                           quantity_lag30 = lag30,
                           quantity_rolling_mean_7 = mean7,
                           quantity_rolling_std_7 = std7,
                           quantity_rolling_mean_30 = mean30,
                           day_of_week = dayofweek next_date,
                           month = month_of next_date,
                           quarter = quarter_of next_date \<rparr>))))"

text \<open>
  Data frames are objects on the heap: the store lists them, a reference is a
  position in the store, and building a frame (\<open>tail\<close>, \<open>copy\<close>, \<open>pd.DataFrame\<close>,
  \<open>pd.concat\<close>) allocates a new object.  The forecaster receives the reference \<open>df\<close>
  of the caller's frame.
\<close>

type_synonym store = "feature_row list list"

definition alloc :: "store \<Rightarrow> feature_row list \<Rightarrow> nat \<times> store" where
  "alloc st frame = (length st, st @ [frame])"

fun forecast_loop ::
  "forecaster \<Rightarrow> model \<Rightarrow> nat \<Rightarrow> store \<Rightarrow> nat \<Rightarrow> forecast list \<Rightarrow> (error + forecast list) \<times> store" where
  "forecast_loop self mdl 0 st current_data forecasts = (Inr forecasts, st)"
| "forecast_loop self mdl (Suc i) st current_data forecasts =
     (case forecast_step self mdl (st ! current_data) of
        Inl e \<Rightarrow> (Inl e, st)
      | Inr (f, row) \<Rightarrow>
          (let (new_row, st1) = alloc st [row];
               (current_data', st2) = alloc st1 (st1 ! current_data @ st1 ! new_row)
           in forecast_loop self mdl i st2 current_data' (forecasts @ [f])))"

text \<open>\<open>DemandForecaster.forecast_demand\<close>; \<open>range(days_ahead)\<close> is empty for a
  \<open>days_ahead\<close> below one.\<close>

definition forecast_demand ::
  "forecaster \<Rightarrow> model \<Rightarrow> store \<Rightarrow> nat \<Rightarrow> int \<Rightarrow> (error + forecast list) \<times> store" where
  "forecast_demand self mdl st df days_ahead =
     (let (t, st1) = alloc st (tail 30 (st ! df));
          (current_data, st2) = alloc st1 (st1 ! t)
      in forecast_loop self mdl (nat days_ahead) st2 current_data [])"

section \<open>Anomaly detector\<close>

record anomaly =
  anomaly_date :: int
  anomaly_quantity :: fl
  expected_quantity :: fl
  deviation :: fl
  z_score :: fl
  severity :: string

text \<open>\<open>DemandForecaster.detect_anomalies\<close>; \<open>df\<close> is the list of its (date, quantity)
  rows.\<close>

definition detect_anomalies :: "(int \<times> real) list \<Rightarrow> real \<Rightarrow> anomaly list" where
  "detect_anomalies df threshold =
     (let daily_sales = groupby_sum df;
          dates = map fst daily_sales;
          qty = map snd daily_sales;
          c_mean = rolling_mean 30 qty;
          c_std = rolling_std 30 qty;
          z = map (\<lambda>i. fl_abs (fl_div (fl_sub (Fin (qty ! i)) (c_mean ! i)) (c_std ! i)))
                  [0..<length qty];
          anomalies = filter (\<lambda>i. fl_gt (z ! i) (Fin threshold)) [0..<length qty]
      in map (\<lambda>i. \<lparr> anomaly_date = dates ! i,
                      anomaly_quantity = Fin (qty ! i),
                      expected_quantity = c_mean ! i,
                      deviation = fl_sub (Fin (qty ! i)) (c_mean ! i),
                      z_score = z ! i,
                      severity = (if fl_gt (z ! i) (Fin 3) then ''high'' else ''medium'') \<rparr>)
             anomalies)"

section \<open>Recommendation generator\<close>

record recommendation =
  rec_type :: string
  rec_severity :: string
  message :: string
  action :: string
  priority :: nat

text \<open>\<open>int(x)\<close> of Python on a float: truncation towards zero; an infinity raises
  OverflowError and NaN raises ValueError.\<close>

fun py_int :: "fl \<Rightarrow> error + int" where
  "py_int (Fin x) = Inr (if 0 \<le> x then \<lfloor>x\<rfloor> else \<lceil>x\<rceil>)"
| "py_int PInf = Inl OverflowError"
| "py_int NInf = Inl OverflowError"
| "py_int NaN = Inl (ValueError ''cannot convert float NaN to integer'')"

fun str_nat :: "nat \<Rightarrow> string" where
  "str_nat n =
     (if n < 10 then [''0123456789'' ! n]
      else str_nat (n div 10) @ [''0123456789'' ! (n mod 10)])"

definition str_int :: "int \<Rightarrow> string" where
  "str_int i = (if i < 0 then ''-'' @ str_nat (nat (- i)) else str_nat (nat i))"

text \<open>\<open>max\<close> and \<open>min\<close> of Python on a list: the first element is kept until a later
  one compares greater (smaller); the empty list raises ValueError.\<close>

fun py_max :: "fl list \<Rightarrow> error + fl" where
  "py_max [] = Inl (ValueError ''max() arg is an empty sequence'')"
| "py_max (x # xs) = Inr (foldl (\<lambda>m y. if fl_gt y m then y else m) x xs)"

fun py_min :: "fl list \<Rightarrow> error + fl" where
  "py_min [] = Inl (ValueError ''min() arg is an empty sequence'')"
| "py_min (x # xs) = Inr (foldl (\<lambda>m y. if fl_less y m then y else m) x xs)"

definition high_demand_alert :: "int \<Rightarrow> recommendation" where
  "high_demand_alert pct =
     \<lparr> rec_type = ''high_demand_alert'',
       rec_severity = ''high'',
       message = ''High demand period detected. Increase inventory by '' @ str_int pct @ ''%'',
       action = ''Increase orders to suppliers'',
       priority = 1 \<rparr>"

definition low_demand_alert :: recommendation where
  "low_demand_alert =
     \<lparr> rec_type = ''low_demand_alert'',
       rec_severity = ''medium'',
       message = ''Low demand period detected. Consider promotional activities.'',
       action = ''Plan promotional campaigns'',
       priority = 2 \<rparr>"

definition inventory_optimization :: "int \<Rightarrow> int \<Rightarrow> recommendation" where
  "inventory_optimization rp ss =
     \<lparr> rec_type = ''inventory_optimization'',
       rec_severity = ''info'',
       message = ''Optimal reorder point: '' @ str_int rp @ '' units'',
       action = ''Maintain safety stock of '' @ str_int ss @ '' units'',
       priority = 3 \<rparr>"

text \<open>\<open>DemandForecaster.generate_recommendations\<close>.\<close>

definition generate_recommendations ::
  "int \<Rightarrow> forecast list \<Rightarrow> inventory_params \<Rightarrow> error + recommendation list" where
  "generate_recommendations store_id forecasts inventory_params =
     (let qs = map predicted_quantity forecasts;
          avg_forecast = np_mean qs
      in case py_max qs of
           Inl e \<Rightarrow> Inl e
         | Inr max_forecast \<Rightarrow>
            (case (if fl_gt max_forecast (fl_mul avg_forecast (Fin 1.5))
                   then (case py_int (fl_mul (fl_div (fl_sub max_forecast avg_forecast)
                                                     avg_forecast) (Fin 100)) of
                           Inl e \<Rightarrow> Inl e
                         | Inr pct \<Rightarrow> Inr [high_demand_alert pct])
                   else Inr []) of
               Inl e \<Rightarrow> Inl e
             | Inr recs1 \<Rightarrow>
                (case py_min qs of
                   Inl e \<Rightarrow> Inl e
                 | Inr min_forecast \<Rightarrow>
                    (let recs2 = recs1 @
                           (if fl_less min_forecast (fl_mul avg_forecast (Fin 0.5))
                            then [low_demand_alert] else [])
                     in case py_int (reorder_point inventory_params) of
                          Inl e \<Rightarrow> Inl e
                        | Inr rp \<Rightarrow>
                           (case py_int (safety_stock inventory_params) of
                              Inl e \<Rightarrow> Inl e
                            | Inr ss \<Rightarrow> Inr (recs2 @ [inventory_optimization rp ss]))))))"

section \<open>Notions used in the statements\<close>

text \<open>The sample variance (\<open>ddof = 1\<close>) of a list of finite values.\<close>

definition sample_var :: "real list \<Rightarrow> real" where
  "sample_var xs = (\<Sum>x\<leftarrow>xs. (x - sum_list xs / real (length xs))\<^sup>2) / real (length xs - 1)"


text \<open>The daily series of a sales frame in the words of the specification: its distinct
  dates in ascending order, and for each of them the sum of the quantities sold on that
  date; the mean of a list of finite values.  \<open>four_sales\<close> is a frame of four sales on
  three days.\<close>

definition days :: "(int \<times> real) list \<Rightarrow> int list" where
  "days df = sort (remdups (map fst df))"

definition day_total :: "(int \<times> real) list \<Rightarrow> int \<Rightarrow> real" where
  "day_total df d = sum_list (map snd (filter (\<lambda>r. fst r = d) df))"

definition daily_totals :: "(int \<times> real) list \<Rightarrow> real list" where
  "daily_totals df = map (day_total df) (days df)"

definition mean :: "real list \<Rightarrow> real" where
  "mean xs = sum_list xs / real (length xs)"

definition four_sales :: "(int \<times> real) list" where
  "four_sales = [(1, 2), (2, 10), (1, 4), (3, 8)]"

text \<open>The score the anomaly detector computes for row \<open>i\<close> of the daily quantities.\<close>

definition zscore :: "real list \<Rightarrow> nat \<Rightarrow> fl" where
  "zscore qty i =
     fl_abs (fl_div (fl_sub (Fin (qty ! i)) (rolling_mean 30 qty ! i)) (rolling_std 30 qty ! i))"

text \<open>Two series of thirty days: twenty-nine days without sales followed by a day of
  thirty units, and thirty days of five units.\<close>

definition spike_series :: "(int \<times> real) list" where
  "spike_series = map (\<lambda>d. (d, 0)) [1..29] @ [(30, 30)]"

definition flat_series :: "(int \<times> real) list" where
  "flat_series = map (\<lambda>d. (d, 5)) [1..30]"

text \<open>The usable rows in the words of the specification: the rows left after removing
  those with any undefined feature or target value.\<close>

definition usable_rows_spec :: "feature_row list \<Rightarrow> feature_row list" where
  "usable_rows_spec df =
     filter (\<lambda>r. \<not> list_ex isna (feature_vector r) \<and> \<not> isna (quantity r)) df"

definition null_sklearn :: sklearn where
  "null_sklearn =
     \<lparr> fit_scaler = (\<lambda>X v. v),
       fit_model = (\<lambda>t X y. \<lparr> predict = (\<lambda>v. Fin 0), feature_importances = [] \<rparr>),
       r2_score = (\<lambda>y p. Fin 0),
       mean_absolute_error = (\<lambda>y p. Fin 0),
       mean_squared_error = (\<lambda>y p. Fin 0) \<rparr>"

definition new_forecaster :: forecaster where
  "new_forecaster = \<lparr> scalers = Map.empty, feature_importance = Map.empty \<rparr>"

definition sparse_row :: "int \<Rightarrow> feature_row" where
  "sparse_row d =
     \<lparr> date = d, quantity = Fin 1, totalRevenue = Fin 1,
       quantity_lag1 = Fin 1, quantity_lag7 = Fin 1, quantity_lag30 = NaN,
       quantity_rolling_mean_7 = Fin 1, quantity_rolling_std_7 = Fin 0,
       quantity_rolling_mean_30 = NaN,
       day_of_week = dayofweek d, month = month_of d, quarter = quarter_of d \<rparr>"

definition sparse_frame :: "feature_row list" where
  "sparse_frame = map sparse_row [1..100]"

text \<open>Filling in the words of the specification: the value of row \<open>i\<close> is the nearest
  later defined value of the column (row \<open>i\<close> included) and, when there is none, the
  nearest earlier one.  \<open>daily_qty\<close> is the quantity column of the daily frame, one
  value per distinct date; the sample inputs have one sale a day.\<close>

definition first_defined :: "fl list \<Rightarrow> fl" where
  "first_defined xs = (case filter (\<lambda>x. \<not> isna x) xs of [] \<Rightarrow> NaN | y # _ \<Rightarrow> y)"

definition fill_spec :: "fl list \<Rightarrow> nat \<Rightarrow> fl" where
  "fill_spec col i =
     (let later = first_defined (drop i col);
          earlier = first_defined (rev (take i col))
      in if \<not> isna later then later else earlier)"

definition daily_qty :: "sale list \<Rightarrow> real list" where
  "daily_qty df = map snd (groupby_sum (map (\<lambda>r. (saleDate r, sale_quantity r)) df))"

definition day_sale :: "int \<Rightarrow> sale" where
  "day_sale d = \<lparr> saleDate = d, sale_quantity = 10, sale_totalRevenue = 20 \<rparr>"

definition single_sale :: "sale list" where
  "single_sale = [day_sale 1]"

definition thirty_sales :: "sale list" where
  "thirty_sales = map day_sale [1..30]"

definition month_sales :: "sale list" where
  "month_sales = map day_sale [1..31]"

text \<open>A forecast point of a finite quantity, and a forecast of three days.\<close>

definition forecast_of :: "int \<Rightarrow> real \<Rightarrow> forecast" where
  "forecast_of d q =
     \<lparr> forecast_date = d, predicted_quantity = Fin q,
       confidence_interval_lower = Fin (q * 0.8),
       confidence_interval_upper = Fin (q * 1.2) \<rparr>"

definition three_forecasts :: "forecast list" where
  "three_forecasts = [forecast_of 1 4, forecast_of 2 40, forecast_of 3 16]"

text \<open>The forecasts as a function of the content of the frame alone: the loop of
  \<open>forecast_demand\<close> read without the store.  A forecast is well formed when its quantity
  is not negative and its bounds are 0.8 and 1.2 times the quantity.  The sample inputs
  are a forecaster whose fitted scaler is the identity, a model that predicts a
  constant, and a frame of two days.\<close>

fun forecast_frames ::
  "forecaster \<Rightarrow> model \<Rightarrow> nat \<Rightarrow> feature_row list \<Rightarrow> forecast list \<Rightarrow> error + forecast list" where
  "forecast_frames self mdl 0 current_data forecasts = Inr forecasts"
| "forecast_frames self mdl (Suc i) current_data forecasts =
     (case forecast_step self mdl current_data of
        Inl e \<Rightarrow> Inl e
      | Inr (f, row) \<Rightarrow> forecast_frames self mdl i (current_data @ [row]) (forecasts @ [f]))"


definition fitted_forecaster :: forecaster where
  "fitted_forecaster =
     \<lparr> scalers = [''demand'' \<mapsto> (\<lambda>v. v)], feature_importance = Map.empty \<rparr>"

definition constant_model :: "real \<Rightarrow> model" where
  "constant_model c = \<lparr> predict = (\<lambda>v. Fin c), feature_importances = [] \<rparr>"

definition two_day_frame :: "feature_row list" where
  "two_day_frame = [sparse_row 4, sparse_row 5]"

section \<open>Arithmetic of finite values\<close>


lemma foldl_fl_add_Fin: "foldl fl_add (Fin a) (map Fin xs) = Fin (a + sum_list xs)"
  by (induction xs arbitrary: a) (simp_all add: add.assoc)

lemma fl_sum_Fin: "fl_sum (map Fin xs) = Fin (sum_list xs)"
  by (simp add: fl_sum_def foldl_fl_add_Fin)

lemma filter_notna_Fin: "filter (\<lambda>x. \<not> isna x) (map Fin xs) = map Fin xs"
  by (induction xs) simp_all

lemma pd_mean_Fin:
  "pd_mean (map Fin xs) = (if xs = [] then NaN else Fin (sum_list xs / real (length xs)))"
  by (simp add: pd_mean_def filter_notna_Fin fl_sum_Fin Let_def)

lemma sample_var_nonneg: "0 \<le> sample_var xs"
  unfolding sample_var_def by (intro divide_nonneg_nonneg sum_list_nonneg) auto

lemma map_sq_dev_Fin:
  "map (\<lambda>y. fl_sq (fl_sub y (Fin m))) (map Fin xs) = map Fin (map (\<lambda>x. (x - m)\<^sup>2) xs)"
  by (simp add: fl_sq_def fl_sub_def power2_eq_square)

lemma pd_std_Fin:
  "pd_std (map Fin xs) = (if length xs < 2 then NaN else Fin (sqrt (sample_var xs)))"
proof (cases "length xs < 2")
  case True
  then show ?thesis by (simp add: pd_std_def filter_notna_Fin Let_def)
next
  case False
  then have n0: "real (length xs) \<noteq> 0" "real (length xs - 1) \<noteq> 0" by auto
  have "0 \<le> sample_var xs" by (rule sample_var_nonneg)
  then show ?thesis using False n0
    by (simp add: pd_std_def filter_notna_Fin Let_def fl_sum_Fin map_sq_dev_Fin sample_var_def
        del: map_map)
qed


lemma insert_group_fst_set:
  "set (map fst (insert_group r acc)) = insert (fst r) (set (map fst acc))"
  by (induction r acc rule: insert_group.induct) auto

lemma insert_group_sorted:
  "sorted_wrt (<) (map fst acc) \<Longrightarrow> sorted_wrt (<) (map fst (insert_group r acc))"
proof (induction r acc rule: insert_group.induct)
  case (1 d q)
  then show ?case by simp
next
  case (2 d q d' q' rest)
  have "set (map fst (insert_group (d, q) rest)) = insert d (set (map fst rest))"
    using insert_group_fst_set [of "(d, q)" rest] by simp
  with 2 show ?case by auto
qed

lemma foldl_insert_group_sorted:
  "sorted_wrt (<) (map fst acc) \<Longrightarrow>
   sorted_wrt (<) (map fst (foldl (\<lambda>acc r. insert_group r acc) acc rows))"
  by (induction rows arbitrary: acc) (simp_all add: insert_group_sorted)

lemma groupby_sum_sorted: "sorted_wrt (<) (map fst (groupby_sum rows))"
  by (simp add: groupby_sum_def foldl_insert_group_sorted)

lemma groupby_sum_distinct: "distinct (map fst (groupby_sum rows))"
  using groupby_sum_sorted [of rows] strict_sorted_iff by blast

lemma insert_group_snoc:
  "\<forall>x\<in>set acc. fst x < fst r \<Longrightarrow> insert_group r acc = acc @ [r]"
  by (induction r acc rule: insert_group.induct) auto

lemma foldl_insert_group_id:
  "sorted_wrt (<) (map fst (acc @ rows)) \<Longrightarrow>
   foldl (\<lambda>acc r. insert_group r acc) acc rows = acc @ rows"
proof (induction rows arbitrary: acc)
  case Nil
  then show ?case by simp
next
  case (Cons r rows)
  from Cons.prems have "\<forall>x\<in>set acc. fst x < fst r"
    by (auto simp: sorted_wrt_append)
  then have "insert_group r acc = acc @ [r]" by (rule insert_group_snoc)
  moreover have "sorted_wrt (<) (map fst ((acc @ [r]) @ rows))" using Cons.prems by simp
  ultimately show ?case using Cons.IH [of "acc @ [r]"] by simp
qed

lemma groupby_sum_id: "sorted_wrt (<) (map fst rows) \<Longrightarrow> groupby_sum rows = rows"
  using foldl_insert_group_id [of "[]" rows] by (simp add: groupby_sum_def)

lemma optimize_inventory_fields:
  "daily_demand (optimize_inventory df h c) = pd_mean (map Fin (map snd (groupby_sum df)))"
  "demand_std (optimize_inventory df h c) = pd_std (map Fin (map snd (groupby_sum df)))"
  "lead_time_days (optimize_inventory df h c) = 7"
  "safety_stock (optimize_inventory df h c) =
     fl_mul (Fin 1.645) (fl_mul (demand_std (optimize_inventory df h c)) (Fin (sqrt 7)))"
  "reorder_point (optimize_inventory df h c) =
     fl_add (fl_mul (daily_demand (optimize_inventory df h c)) (Fin 7))
            (safety_stock (optimize_inventory df h c))"
  "economic_order_quantity (optimize_inventory df h c) =
     fl_sqrt (fl_div (fl_mul (fl_mul (Fin 2) (fl_mul (daily_demand (optimize_inventory df h c)) (Fin 365)))
                             (Fin 100)) (Fin (h * 365)))"
  by (simp_all add: optimize_inventory_def Let_def comp_def)

lemma daily_demand_cases:
  "daily_demand (optimize_inventory df h c) =
     (if groupby_sum df = [] then NaN
      else Fin (sum_list (map snd (groupby_sum df)) / real (length (groupby_sum df))))"
  unfolding optimize_inventory_fields pd_mean_Fin by simp

lemma demand_std_cases:
  "demand_std (optimize_inventory df h c) =
     (if length (groupby_sum df) < 2 then NaN
      else Fin (sqrt (sample_var (map snd (groupby_sum df)))))"
  unfolding optimize_inventory_fields pd_std_Fin by simp

lemma day_total_Cons:
  "day_total (r # rows) d = (if fst r = d then snd r else 0) + day_total rows d"
  by (simp add: day_total_def)

lemma day_total_insert_group:
  "day_total (insert_group r acc) d = day_total acc d + (if fst r = d then snd r else 0)"
  by (induction r acc rule: insert_group.induct) (auto simp add: day_total_def)

lemma day_total_foldl:
  "day_total (foldl (\<lambda>acc r. insert_group r acc) acc rows) d = day_total acc d + day_total rows d"
  by (induction rows arbitrary: acc) (simp_all add: day_total_insert_group day_total_Cons, simp add: day_total_def)

lemma groupby_sum_day_total: "day_total (groupby_sum df) d = day_total df d"
  by (simp add: groupby_sum_def day_total_foldl) (simp add: day_total_def)

lemma distinct_day_total:
  "distinct (map fst g) \<Longrightarrow> r \<in> set g \<Longrightarrow> day_total g (fst r) = snd r"
proof (induction g)
  case Nil
  then show ?case by simp
next
  case (Cons a g)
  show ?case
  proof (cases "r = a")
    case True
    have "fst a \<notin> fst ` set g" using Cons.prems(1) by simp
    then have "\<forall>x \<in> set g. fst x \<noteq> fst a" by (metis imageI)
    then have "filter (\<lambda>x. fst x = fst a) g = []"
      by (simp add: filter_empty_conv)
    then show ?thesis using True by (simp add: day_total_def)
  next
    case False
    then have rg: "r \<in> set g" using Cons.prems(2) by simp
    then have "fst a \<noteq> fst r" using Cons.prems(1) by auto
    then show ?thesis using Cons.IH [OF _ rg] Cons.prems(1) by (simp add: day_total_Cons)
  qed
qed

lemma foldl_insert_group_set:
  "set (map fst (foldl (\<lambda>acc r. insert_group r acc) acc rows))
     = set (map fst acc) \<union> set (map fst rows)"
proof (induction rows arbitrary: acc)
  case Nil
  then show ?case by simp
next
  case (Cons r rows)
  show ?case using Cons.IH [of "insert_group r acc"] insert_group_fst_set [of r acc] by auto
qed

lemma groupby_sum_days: "map fst (groupby_sum df) = days df"
proof -
  have s: "sorted (map fst (groupby_sum df))" and d: "distinct (map fst (groupby_sum df))"
    using groupby_sum_sorted [of df] by (simp_all add: strict_sorted_iff)
  have e: "set (map fst (groupby_sum df)) = set (days df)"
    using foldl_insert_group_set [of "[]" df] by (simp add: groupby_sum_def days_def)
  show ?thesis unfolding days_def
    by (rule sorted_distinct_set_unique [OF s d _ _ e [unfolded days_def]]) simp_all
qed

lemma groupby_sum_totals: "map snd (groupby_sum df) = daily_totals df"
proof -
  have "map snd (groupby_sum df) = map (\<lambda>r. day_total (groupby_sum df) (fst r)) (groupby_sum df)"
    using distinct_day_total [OF groupby_sum_distinct [of df]] by (intro map_cong) simp_all
  also have "\<dots> = map (day_total df) (map fst (groupby_sum df))"
    by (simp add: groupby_sum_day_total comp_def)
  finally show ?thesis by (simp add: daily_totals_def groupby_sum_days)
qed

lemma optimize_inventory_mean:
  "daily_demand (optimize_inventory df h c) =
     (if daily_totals df = [] then NaN else Fin (mean (daily_totals df)))"
  unfolding optimize_inventory_fields groupby_sum_totals pd_mean_Fin mean_def ..

lemma optimize_inventory_std:
  "demand_std (optimize_inventory df h c) =
     (if length (daily_totals df) < 2 then NaN else Fin (sqrt (sample_var (daily_totals df))))"
  unfolding optimize_inventory_fields groupby_sum_totals pd_std_Fin ..

section \<open>Inventory optimizer: the formulas\<close>

lemmas inv_eval = optimize_inventory_def Let_def groupby_sum_def pd_mean_def pd_std_def
  fl_sum_def fl_sq_def fl_sub_def

text \<open>
  C3.  The outputs of the inventory optimizer satisfy the three formulas.  The mean
  daily demand is the mean of the daily totals of the input (the quantities added up
  per distinct date) and the deviation is their sample standard deviation; the safety
  stock is 1.645 times the deviation times the square root of the lead time, the
  reorder point is mean demand times lead time plus safety stock, and the economic
  order quantity is the square root of 2 * (mean * 365) * ordering cost divided by
  (holding cost * 365), with the lead time 7 and the ordering cost 100 of the code.
  For a series of at least two days these are the formulas over the reals, computed
  from the input.  Consequently the reorder point is at least mean demand times lead
  time whenever the safety stock is at least zero, and the order quantity is zero only
  when annual demand is zero.
\<close>

theorem optimize_inventory_formulas:
  "(let p = optimize_inventory df holding_cost stockout_cost;
        xs = daily_totals df in
      lead_time_days p = 7
    \<and> daily_demand p = (if xs = [] then NaN else Fin (mean xs))
    \<and> demand_std p = (if length xs < 2 then NaN else Fin (sqrt (sample_var xs)))
    \<and> safety_stock p =
        fl_mul (Fin 1.645) (fl_mul (demand_std p) (Fin (sqrt (real (lead_time_days p)))))
    \<and> reorder_point p =
        fl_add (fl_mul (daily_demand p) (Fin (real (lead_time_days p)))) (safety_stock p)
    \<and> economic_order_quantity p =
        fl_sqrt (fl_div (fl_mul (fl_mul (Fin 2) (fl_mul (daily_demand p) (Fin 365))) (Fin 100))
                        (Fin (holding_cost * 365)))
    \<and> (2 \<le> length xs \<longrightarrow>
          safety_stock p = Fin (1.645 * sqrt (sample_var xs) * sqrt 7)
        \<and> reorder_point p = Fin (mean xs * 7 + 1.645 * sqrt (sample_var xs) * sqrt 7))
    \<and> (xs \<noteq> [] \<and> 0 \<le> mean xs \<and> 0 < holding_cost \<longrightarrow>
          economic_order_quantity p = Fin (sqrt (2 * (mean xs * 365) * 100 / (holding_cost * 365))))
    \<and> (\<forall>m s. daily_demand p = Fin m \<and> demand_std p = Fin s \<longrightarrow>
          safety_stock p = Fin (1.645 * s * sqrt (real (lead_time_days p)))
        \<and> reorder_point p = Fin (m * real (lead_time_days p) + 1.645 * s * sqrt (real (lead_time_days p)))
        \<and> (0 \<le> m \<and> 0 < holding_cost \<longrightarrow>
             economic_order_quantity p = Fin (sqrt (2 * (m * 365) * 100 / (holding_cost * 365)))))
    \<and> (fl_le (Fin 0) (safety_stock p) \<longrightarrow>
          fl_le (fl_mul (daily_demand p) (Fin (real (lead_time_days p)))) (reorder_point p))
    \<and> (economic_order_quantity p = Fin 0 \<longrightarrow> fl_mul (daily_demand p) (Fin 365) = Fin 0))"
proof -
  define p where "p = optimize_inventory df holding_cost stockout_cost"
  define xs where "xs = daily_totals df"
  note f = optimize_inventory_fields [of df holding_cost stockout_cost, folded p_def]
  have l: "lead_time_days p = 7" by (rule f(3))
  have m: "daily_demand p = (if xs = [] then NaN else Fin (mean xs))"
    unfolding p_def xs_def by (rule optimize_inventory_mean)
  have s: "demand_std p = (if length xs < 2 then NaN else Fin (sqrt (sample_var xs)))"
    unfolding p_def xs_def by (rule optimize_inventory_std)
  have a: "safety_stock p =
        fl_mul (Fin 1.645) (fl_mul (demand_std p) (Fin (sqrt (real (lead_time_days p)))))"
    using f(4) by (simp add: f(3))
  have b: "reorder_point p =
        fl_add (fl_mul (daily_demand p) (Fin (real (lead_time_days p)))) (safety_stock p)"
    using f(5) by (simp add: f(3))
  have c: "economic_order_quantity p =
        fl_sqrt (fl_div (fl_mul (fl_mul (Fin 2) (fl_mul (daily_demand p) (Fin 365))) (Fin 100))
                        (Fin (holding_cost * 365)))"
    by (rule f(6))
  have d: "\<forall>m s. daily_demand p = Fin m \<and> demand_std p = Fin s \<longrightarrow>
          safety_stock p = Fin (1.645 * s * sqrt (real (lead_time_days p)))
        \<and> reorder_point p = Fin (m * real (lead_time_days p) + 1.645 * s * sqrt (real (lead_time_days p)))
        \<and> (0 \<le> m \<and> 0 < holding_cost \<longrightarrow>
             economic_order_quantity p = Fin (sqrt (2 * (m * 365) * 100 / (holding_cost * 365))))"
    by (auto simp: f(3) f(4) f(5) f(6))
  have two: "2 \<le> length xs \<longrightarrow>
          safety_stock p = Fin (1.645 * sqrt (sample_var xs) * sqrt 7)
        \<and> reorder_point p = Fin (mean xs * 7 + 1.645 * sqrt (sample_var xs) * sqrt 7)"
  proof
    assume n: "2 \<le> length xs"
    then have ne: "xs \<noteq> []" by auto
    have m': "daily_demand p = Fin (mean xs)" using m ne by simp
    have s': "demand_std p = Fin (sqrt (sample_var xs))" using s n by simp
    show "safety_stock p = Fin (1.645 * sqrt (sample_var xs) * sqrt 7)
        \<and> reorder_point p = Fin (mean xs * 7 + 1.645 * sqrt (sample_var xs) * sqrt 7)"
      using d [rule_format, OF conjI [OF m' s']] by (simp add: l)
  qed
  have e: "xs \<noteq> [] \<and> 0 \<le> mean xs \<and> 0 < holding_cost \<longrightarrow>
          economic_order_quantity p = Fin (sqrt (2 * (mean xs * 365) * 100 / (holding_cost * 365)))"
    using m by (auto simp: f(6))
  have dd: "daily_demand p = NaN \<or> (\<exists>m. daily_demand p = Fin m)"
    using m by auto
  have ds: "demand_std p = NaN \<or> (\<exists>m s. daily_demand p = Fin m \<and> demand_std p = Fin s \<and> 0 \<le> s)"
    using m s by (auto simp: sample_var_nonneg)
  have g: "fl_le (Fin 0) (safety_stock p) \<longrightarrow>
          fl_le (fl_mul (daily_demand p) (Fin (real (lead_time_days p)))) (reorder_point p)"
    using dd ds by (auto simp: f(3) f(4) f(5))
  have h: "economic_order_quantity p = Fin 0 \<longrightarrow> fl_mul (daily_demand p) (Fin 365) = Fin 0"
    using dd by (auto simp: f(6) split: if_splits)
  from l m s a b c two e d g h show ?thesis
    unfolding p_def [symmetric] xs_def [symmetric] Let_def by (intro conjI)
qed

lemma four_sales_totals: "daily_totals four_sales = [6, 10, 8]"
  by (simp add: four_sales_def daily_totals_def days_def day_total_def)

lemma four_sales_mean: "mean [6, 10, 8] = 8"
  by (simp add: mean_def)

lemma four_sales_var: "sample_var [6, 10, 8] = 4"
  by (simp add: sample_var_def)

lemma sqrt_4: "sqrt 4 = 2"
  using real_sqrt_abs [of 2] by simp

text \<open>Four sales on three days, with daily totals 6, 10 and 8: mean 8, deviation 2.\<close>

theorem optimize_inventory_formulas_witness:
  "(let p = optimize_inventory four_sales 0.1 50 in
      daily_totals four_sales = [6, 10, 8]
    \<and> daily_demand p = Fin 8 \<and> demand_std p = Fin 2
    \<and> safety_stock p = Fin (1.645 * 2 * sqrt 7)
    \<and> reorder_point p = Fin (8 * 7 + 1.645 * 2 * sqrt 7)
    \<and> economic_order_quantity p = Fin (sqrt 16000)
    \<and> fl_le (Fin 0) (safety_stock p)
    \<and> fl_le (fl_mul (daily_demand p) (Fin (real (lead_time_days p)))) (reorder_point p))"
proof -
  define p where "p = optimize_inventory four_sales 0.1 50"
  note T = optimize_inventory_formulas [of four_sales "0.1" 50,
      unfolded Let_def four_sales_totals four_sales_mean four_sales_var sqrt_4, folded p_def]
  have l: "lead_time_days p = 7" using T by simp
  have m: "daily_demand p = Fin 8" using T by simp
  have s: "demand_std p = Fin 2" using T by simp
  have ss: "safety_stock p = Fin (1.645 * 2 * sqrt 7)" using T by simp
  have rp: "reorder_point p = Fin (8 * 7 + 1.645 * 2 * sqrt 7)" using T by simp
  have eq: "economic_order_quantity p = Fin (sqrt 16000)" using T by simp
  have nn: "fl_le (Fin 0) (safety_stock p)" unfolding ss by simp
  have ge: "fl_le (fl_mul (daily_demand p) (Fin (real (lead_time_days p)))) (reorder_point p)"
    using T nn by simp
  show ?thesis unfolding Let_def p_def [symmetric]
    by (intro conjI) (rule four_sales_totals m s ss rp eq nn ge)+
qed

section \<open>Inventory optimizer: degenerate deviation\<close>

text \<open>
  A series of a single day has an undefined deviation, and the safety stock computed
  from it is NaN, not zero.
\<close>

theorem safety_stock_single_day_counterexample:
  "demand_std (optimize_inventory [(1, 10)] 0.1 50) = NaN
   \<and> safety_stock (optimize_inventory [(1, 10)] 0.1 50) \<noteq> Fin 0"
  by (simp add: inv_eval)

lemma sample_var_replicate: "sample_var (replicate n c) = 0"
  by (cases "n = 0") (simp_all add: sample_var_def sum_list_replicate)

lemma groupby_sum_const:
  assumes "sorted_wrt (<) ds"
  shows "map snd (groupby_sum (map (\<lambda>d. (d, c)) ds)) = replicate (length ds) c"
proof -
  have "map fst (map (\<lambda>d. (d, c)) ds) = ds" by (simp add: comp_def)
  then have "groupby_sum (map (\<lambda>d. (d, c)) ds) = map (\<lambda>d. (d, c)) ds"
    using assms groupby_sum_id by metis
  then show ?thesis by (simp add: comp_def map_replicate_const)
qed

lemma sqrt_200000_bounds: "447.2 < sqrt 200000 \<and> sqrt 200000 < (447.3::real)"
proof
  have "(447.2::real)\<^sup>2 < 200000" by (simp add: power2_eq_square)
  then show "447.2 < sqrt 200000" by (rule real_less_rsqrt)
  have "(200000::real) < 447.3\<^sup>2" by (simp add: power2_eq_square)
  then show "sqrt 200000 < (447.3::real)" by (intro real_less_lsqrt) auto
qed

lemma constant_demand_scenario:
  "optimize_inventory (map (\<lambda>d. (d, 100)) [1..400]) 0.1 c =
      \<lparr> daily_demand = Fin 100, demand_std = Fin 0, reorder_point = Fin 700,
        safety_stock = Fin 0, economic_order_quantity = Fin (sqrt 200000),
        lead_time_days = 7, service_level = 0.95 \<rparr>"
proof -
  let ?df = "map (\<lambda>d. (d, 100::real)) [1..400]"
  have q: "map snd (groupby_sum ?df) = replicate 400 100"
    using groupby_sum_const [OF sorted_wrt_upto, of 100 1 400] by simp
  have l: "length (groupby_sum ?df) = 400"
    using arg_cong [OF q, of length] by simp
  have ne: "groupby_sum ?df \<noteq> []" using l by auto
  have m: "daily_demand (optimize_inventory ?df 0.1 c) = Fin 100"
    unfolding daily_demand_cases q using ne l by (simp add: sum_list_replicate)
  have s: "demand_std (optimize_inventory ?df 0.1 c) = Fin 0"
    unfolding demand_std_cases q using l by (simp add: sample_var_replicate)
  note f = optimize_inventory_fields [of ?df "0.1" c]
  have ss: "safety_stock (optimize_inventory ?df 0.1 c) = Fin 0"
    unfolding f(4) s by simp
  have rp: "reorder_point (optimize_inventory ?df 0.1 c) = Fin 700"
    unfolding f(5) ss m by simp
  have e: "economic_order_quantity (optimize_inventory ?df 0.1 c) = Fin (sqrt 200000)"
    unfolding f(6) m by simp
  have sl: "service_level (optimize_inventory ?df 0.1 c) = 0.95"
    by (simp add: optimize_inventory_def Let_def)
  show ?thesis using m s ss rp e f(3) sl by (intro inventory_params.equality) simp_all
qed

text \<open>
  C7, as the code has it.  For a series whose deviation is zero the optimizer returns
  a safety stock of zero.  An undefined deviation, which is the case exactly for a
  series of fewer than two distinct days, gives an undefined (NaN) safety stock and
  reorder point.  In the scenario of a constant demand of 100 a day for 400 days, with
  holding cost 0.1, the deviation is 0, the safety stock 0, the reorder point 700 and
  the order quantity the square root of 200000, which lies between 447.2 and 447.3.
\<close>

theorem safety_stock_degenerate_std:
  "(let p = optimize_inventory df holding_cost stockout_cost in
      (demand_std p = Fin 0 \<longrightarrow> safety_stock p = Fin 0)
    \<and> (demand_std p = NaN \<longrightarrow> safety_stock p = NaN \<and> reorder_point p = NaN)
    \<and> (demand_std p = NaN \<longleftrightarrow> length (groupby_sum df) < 2))
   \<and> optimize_inventory (map (\<lambda>d. (d, 100)) [1..400]) 0.1 stockout_cost =
      \<lparr> daily_demand = Fin 100, demand_std = Fin 0, reorder_point = Fin 700,
        safety_stock = Fin 0, economic_order_quantity = Fin (sqrt 200000),
        lead_time_days = 7, service_level = 0.95 \<rparr>
   \<and> 447.2 < sqrt 200000 \<and> sqrt 200000 < (447.3::real)"
proof -
  define p where "p = optimize_inventory df holding_cost stockout_cost"
  note f = optimize_inventory_fields [of df holding_cost stockout_cost, folded p_def]
  have a: "demand_std p = Fin 0 \<longrightarrow> safety_stock p = Fin 0"
    by (simp add: f(4))
  have dd: "daily_demand p = NaN \<or> (\<exists>m. daily_demand p = Fin m)"
    unfolding p_def daily_demand_cases by simp
  have b: "demand_std p = NaN \<longrightarrow> safety_stock p = NaN \<and> reorder_point p = NaN"
    using dd by (auto simp: f(4) f(5))
  have c: "demand_std p = NaN \<longleftrightarrow> length (groupby_sum df) < 2"
    unfolding p_def demand_std_cases by simp
  show ?thesis
    using a b c constant_demand_scenario sqrt_200000_bounds
    unfolding p_def [symmetric] Let_def by blast
qed

theorem safety_stock_degenerate_std_witness:
  "(let p = optimize_inventory [(1, 5), (2, 5)] 0.1 50 in
      demand_std p = Fin 0 \<and> safety_stock p = Fin 0)
   \<and> (let p = optimize_inventory [(1, 10)] 0.1 50 in
      length (groupby_sum [(1, 10)]) < 2 \<and> demand_std p = NaN
      \<and> safety_stock p = NaN \<and> reorder_point p = NaN)"
  using safety_stock_degenerate_std [of "[(1, 5), (2, 5)]" "0.1" 50]
        safety_stock_degenerate_std [of "[(1, 10)]" "0.1" 50]
  by (simp add: inv_eval)

section \<open>Anomaly detector\<close>

lemma window_nth:
  assumes "w \<le> Suc i" "i < length xs"
  shows "window w i xs = map (\<lambda>j. xs ! (Suc i - w + j)) [0..<w]"
  unfolding window_def using assms by (intro nth_equalityI) auto

lemma window_length: "w \<le> Suc i \<Longrightarrow> i < length xs \<Longrightarrow> length (window w i xs) = w"
  by (simp add: window_nth)

lemma window_last:
  assumes "0 < w" "w \<le> Suc i" "i < length xs"
  shows "xs ! i \<in> set (window w i xs)"
proof -
  have "xs ! (Suc i - w + (w - 1)) \<in> (\<lambda>j. xs ! (Suc i - w + j)) ` {0..<w}"
    using assms(1) by (intro imageI) simp
  moreover have "Suc i - w + (w - 1) = i" using assms by simp
  ultimately show ?thesis using assms by (simp add: window_nth)
qed

lemma rolling_mean_nth:
  "i < length xs \<Longrightarrow> rolling_mean w xs ! i =
     (if Suc i < w then NaN else pd_mean (map Fin (window w i xs)))"
  by (simp add: rolling_mean_def)

lemma rolling_std_nth:
  "i < length xs \<Longrightarrow> rolling_std w xs ! i =
     (if Suc i < w then NaN else pd_std (map Fin (window w i xs)))"
  by (simp add: rolling_std_def)

lemma sample_var_zero:
  assumes "2 \<le> length xs" "sample_var xs = 0" "x \<in> set xs"
  shows "x = sum_list xs / real (length xs)"
proof -
  let ?m = "sum_list xs / real (length xs)"
  have "real (length xs - 1) \<noteq> 0" using assms(1) by auto
  with assms(2) have "(\<Sum>x\<leftarrow>xs. (x - ?m)\<^sup>2) = 0" by (simp add: sample_var_def)
  then have "\<forall>y\<in>set (map (\<lambda>x. (x - ?m)\<^sup>2) xs). y = 0"
    by (subst (asm) sum_list_nonneg_eq_0_iff) auto
  with assms(3) show ?thesis by auto
qed

lemma detect_anomalies_elem:
  assumes "a \<in> set (detect_anomalies df thr)"
  obtains i where "i < length (groupby_sum df)"
    and "fl_gt (zscore (map snd (groupby_sum df)) i) (Fin thr)"
    and "anomaly_date a = fst (groupby_sum df ! i)"
    and "anomaly_quantity a = Fin (snd (groupby_sum df ! i))"
    and "expected_quantity a = rolling_mean 30 (map snd (groupby_sum df)) ! i"
    and "z_score a = zscore (map snd (groupby_sum df)) i"
  using assms unfolding detect_anomalies_def Let_def zscore_def by auto

lemma detect_anomalies_intro:
  assumes "i < length (groupby_sum df)"
    and "fl_gt (zscore (map snd (groupby_sum df)) i) (Fin thr)"
  shows "fst (groupby_sum df ! i) \<in> anomaly_date ` set (detect_anomalies df thr)"
proof -
  let ?n = "length (groupby_sum df)"
  have "i \<in> set (filter (\<lambda>i. fl_gt (zscore (map snd (groupby_sum df)) i) (Fin thr)) [0..<?n])"
    using assms by simp
  then show ?thesis
    unfolding detect_anomalies_def Let_def zscore_def
    by (auto simp: image_iff intro!: bexI [of _ i])
qed

lemma zscore_flagged:
  assumes i: "i < length qty" and f: "fl_gt (zscore qty i) (Fin thr)"
  shows "29 \<le> i \<and> 0 < sample_var (window 30 i qty)
       \<and> rolling_mean 30 qty ! i = Fin (sum_list (window 30 i qty) / 30)
       \<and> rolling_std 30 qty ! i = Fin (sqrt (sample_var (window 30 i qty)))
       \<and> zscore qty i = Fin (\<bar>qty ! i - sum_list (window 30 i qty) / 30\<bar>
                               / sqrt (sample_var (window 30 i qty)))"
proof -
  have ge: "29 \<le> i"
  proof (rule ccontr)
    assume "\<not> 29 \<le> i"
    then have "rolling_mean 30 qty ! i = NaN" using i by (simp add: rolling_mean_nth)
    then have "zscore qty i = NaN" by (simp add: zscore_def fl_sub_def)
    with f show False by (simp add: fl_gt_def)
  qed
  let ?w = "window 30 i qty"
  have len: "length ?w = 30" using ge i by (simp add: window_length)
  then have ne: "?w \<noteq> []" by auto
  have m: "rolling_mean 30 qty ! i = Fin (sum_list ?w / 30)"
    using ge i len ne by (simp add: rolling_mean_nth pd_mean_Fin)
  have s: "rolling_std 30 qty ! i = Fin (sqrt (sample_var ?w))"
    using ge i len by (simp add: rolling_std_nth pd_std_Fin)
  have pos: "0 < sample_var ?w"
  proof (rule ccontr)
    assume "\<not> 0 < sample_var ?w"
    then have z: "sample_var ?w = 0" using sample_var_nonneg [of ?w] by simp
    have "qty ! i \<in> set ?w" using ge i by (intro window_last) auto
    then have "qty ! i = sum_list ?w / real (length ?w)"
      using sample_var_zero [of ?w] z len by simp
    then have "zscore qty i = NaN" using len by (simp add: zscore_def m s z fl_sub_def)
    with f show False by (simp add: fl_gt_def)
  qed
  have "zscore qty i = Fin (\<bar>qty ! i - sum_list ?w / 30\<bar> / sqrt (sample_var ?w))"
    using pos by (simp add: zscore_def m s fl_sub_def abs_divide)
  with ge pos m s show ?thesis by simp
qed

lemma spike_groupby: "groupby_sum spike_series = spike_series"
  by (rule groupby_sum_id) (simp add: spike_series_def comp_def sorted_wrt_append sorted_wrt_upto)

lemma spike_length: "length spike_series = 30"
  by (simp add: spike_series_def)

lemma spike_qty: "map snd spike_series = replicate 29 0 @ [30]"
  by (simp add: spike_series_def comp_def map_replicate_const)

lemma spike_window: "window 30 29 (replicate 29 0 @ [30::real]) = replicate 29 0 @ [30]"
  by (simp add: window_def)

lemma spike_var: "sample_var (replicate 29 0 @ [30::real]) = 30"
  by (simp add: sample_var_def sum_list_replicate)

lemma spike_zscore: "zscore (replicate 29 0 @ [30]) 29 = Fin (29 / sqrt 30)"
proof -
  have m: "rolling_mean 30 (replicate 29 0 @ [30]) ! 29 = Fin 1"
    using pd_mean_Fin [of "replicate 29 0 @ [30]"]
    by (simp add: rolling_mean_nth spike_window sum_list_replicate)
  have s: "rolling_std 30 (replicate 29 0 @ [30]) ! 29 = Fin (sqrt 30)"
    using pd_std_Fin [of "replicate 29 0 @ [30]"]
    by (simp add: rolling_std_nth spike_window spike_var)
  have "(replicate 29 0 @ [30::real]) ! 29 = 30" by (simp add: nth_append)
  then show ?thesis by (simp add: zscore_def m s fl_sub_def)
qed

lemma sqrt_30_bound: "sqrt 30 < (29 / 3 :: real)"
  by (intro real_less_lsqrt) (simp_all add: power2_eq_square)

lemma spike_flagged: "fl_gt (zscore (map snd (groupby_sum spike_series)) 29) (Fin 2.5)"
proof -
  have "0 < sqrt (30::real)" by simp
  then have "(5 / 2 :: real) < 29 / sqrt 30"
    using sqrt_30_bound by (simp add: field_simps)
  then show ?thesis by (simp add: spike_groupby spike_qty spike_zscore fl_gt_def)
qed

lemma spike_date_29: "fst (groupby_sum spike_series ! 29) = 30"
  unfolding spike_groupby by (simp add: spike_series_def nth_append)

lemma spike_date_0: "fst (groupby_sum spike_series ! 0) = 1"
  unfolding spike_groupby by (simp add: spike_series_def nth_append upto.simps)

text \<open>
  The thirtieth observation of a series can be flagged: in the series of twenty-nine
  days without sales followed by a day of thirty units, the date of the thirtieth row
  is in the anomaly list for the default threshold.
\<close>

theorem thirtieth_observation_flagged_counterexample:
  "length (groupby_sum spike_series) = 30
   \<and> fst (groupby_sum spike_series ! 29) = 30
   \<and> 30 \<in> anomaly_date ` set (detect_anomalies spike_series 2.5)"
proof -
  have l: "length (groupby_sum spike_series) = 30"
    unfolding spike_groupby by (rule spike_length)
  then have "29 < length (groupby_sum spike_series)" by simp
  then have "fst (groupby_sum spike_series ! 29) \<in> anomaly_date ` set (detect_anomalies spike_series 2.5)"
    using spike_flagged by (rule detect_anomalies_intro)
  then show ?thesis using l spike_date_29 by simp
qed


lemma flat_groupby: "groupby_sum flat_series = flat_series"
  by (rule groupby_sum_id) (simp add: flat_series_def comp_def sorted_wrt_upto)

lemma flat_qty: "map snd flat_series = replicate 30 5"
  by (simp add: flat_series_def comp_def map_replicate_const)

lemma flat_std_29: "rolling_std 30 (map snd (groupby_sum flat_series)) ! 29 = Fin 0"
  using pd_std_Fin [of "replicate 30 5"]
  unfolding flat_groupby flat_qty
  by (simp add: rolling_std_nth window_def sample_var_replicate)

lemma flat_std_0: "rolling_std 30 (map snd (groupby_sum flat_series)) ! 0 = NaN"
  unfolding flat_groupby flat_qty by (simp add: rolling_std_nth)

lemma flat_length: "length (groupby_sum flat_series) = 30"
  unfolding flat_groupby by (simp add: flat_series_def)

lemma groupby_sum_date_inj:
  assumes "i < length (groupby_sum df)" "j < length (groupby_sum df)"
    and "fst (groupby_sum df ! i) = fst (groupby_sum df ! j)"
  shows "i = j"
proof -
  have "(map fst (groupby_sum df) ! i = map fst (groupby_sum df) ! j) = (i = j)"
    using assms(1,2) by (intro nth_eq_iff_index_eq groupby_sum_distinct) simp_all
  then show ?thesis using assms by simp
qed

text \<open>
  C8.  For every daily sales series and every threshold, a day whose rolling 30-day
  standard deviation is zero or undefined is never in the output of the anomaly
  detector, and the z-score of every reported anomaly is a finite number: the
  division never yields an infinite deviation that gets flagged.
\<close>

theorem anomaly_excludes_degenerate_std:
  "(\<forall>i < length (groupby_sum df).
      rolling_std 30 (map snd (groupby_sum df)) ! i = NaN
      \<or> rolling_std 30 (map snd (groupby_sum df)) ! i = Fin 0
      \<longrightarrow> fst (groupby_sum df ! i) \<notin> anomaly_date ` set (detect_anomalies df threshold))
   \<and> (\<forall>a \<in> set (detect_anomalies df threshold). \<exists>z. z_score a = Fin z)"
proof (intro conjI allI impI ballI)
  fix i
  assume i: "i < length (groupby_sum df)"
    and d: "rolling_std 30 (map snd (groupby_sum df)) ! i = NaN
            \<or> rolling_std 30 (map snd (groupby_sum df)) ! i = Fin 0"
  let ?qty = "map snd (groupby_sum df)"
  show "fst (groupby_sum df ! i) \<notin> anomaly_date ` set (detect_anomalies df threshold)"
  proof
    assume "fst (groupby_sum df ! i) \<in> anomaly_date ` set (detect_anomalies df threshold)"
    then obtain a where a: "a \<in> set (detect_anomalies df threshold)"
      and e: "fst (groupby_sum df ! i) = anomaly_date a" by auto
    from a obtain j where j: "j < length (groupby_sum df)"
      and f: "fl_gt (zscore ?qty j) (Fin threshold)"
      and dj: "anomaly_date a = fst (groupby_sum df ! j)"
      by (rule detect_anomalies_elem)
    have "i = j" using i j e dj by (intro groupby_sum_date_inj [of i df j]) simp_all
    with f j have "0 < sample_var (window 30 i ?qty)"
      and "rolling_std 30 ?qty ! i = Fin (sqrt (sample_var (window 30 i ?qty)))"
      using zscore_flagged [of j ?qty threshold] by simp_all
    with d show False by auto
  qed
next
  fix a
  assume "a \<in> set (detect_anomalies df threshold)"
  then obtain j where j: "j < length (groupby_sum df)"
    and f: "fl_gt (zscore (map snd (groupby_sum df)) j) (Fin threshold)"
    and z: "z_score a = zscore (map snd (groupby_sum df)) j"
    by (rule detect_anomalies_elem)
  then show "\<exists>z. z_score a = Fin z"
    using zscore_flagged [of j "map snd (groupby_sum df)" threshold] by simp
qed

text \<open>
  C2, as the code has it.  For every daily sales series and every threshold, the
  rolling mean and standard deviation of a day are computed from the trailing window
  of thirty observations that ends at that day, the day itself included, and no date
  among the first 29 chronological observations appears in the anomaly list: every
  reported anomaly is a row of index at least 29, its expected quantity is the mean
  of that window and its z-score the distance to that mean over the sample standard
  deviation of the window.
\<close>

theorem anomaly_trailing_window:
  "(let daily = groupby_sum df; qty = map snd daily in
     (\<forall>i < length daily. i < 29 \<longrightarrow>
        fst (daily ! i) \<notin> anomaly_date ` set (detect_anomalies df threshold))
   \<and> (\<forall>a \<in> set (detect_anomalies df threshold).
        \<exists>i. 29 \<le> i \<and> i < length daily \<and> anomaly_date a = fst (daily ! i)
           \<and> window 30 i qty = map (\<lambda>j. qty ! (i - 29 + j)) [0..<30]
           \<and> expected_quantity a = Fin (sum_list (window 30 i qty) / 30)
           \<and> z_score a = Fin (\<bar>qty ! i - sum_list (window 30 i qty) / 30\<bar>
                                / sqrt (sample_var (window 30 i qty)))))"
proof -
  let ?daily = "groupby_sum df"
  let ?qty = "map snd ?daily"
  have A: "fst (?daily ! i) \<notin> anomaly_date ` set (detect_anomalies df threshold)"
    if i: "i < length ?daily" and lt: "i < 29" for i
  proof
    assume "fst (?daily ! i) \<in> anomaly_date ` set (detect_anomalies df threshold)"
    then obtain a where a: "a \<in> set (detect_anomalies df threshold)"
      and e: "fst (?daily ! i) = anomaly_date a" by auto
    from a obtain j where j: "j < length ?daily"
      and f: "fl_gt (zscore ?qty j) (Fin threshold)"
      and dj: "anomaly_date a = fst (?daily ! j)"
      by (rule detect_anomalies_elem)
    have "i = j" using i j e dj by (intro groupby_sum_date_inj [of i df j]) simp_all
    with f j have "29 \<le> i" using zscore_flagged [of j ?qty threshold] by simp
    with lt show False by simp
  qed
  have B: "\<exists>i. 29 \<le> i \<and> i < length ?daily \<and> anomaly_date a = fst (?daily ! i)
           \<and> window 30 i ?qty = map (\<lambda>j. ?qty ! (i - 29 + j)) [0..<30]
           \<and> expected_quantity a = Fin (sum_list (window 30 i ?qty) / 30)
           \<and> z_score a = Fin (\<bar>?qty ! i - sum_list (window 30 i ?qty) / 30\<bar>
                                / sqrt (sample_var (window 30 i ?qty)))"
    if a: "a \<in> set (detect_anomalies df threshold)" for a
  proof -
    from a obtain j where j: "j < length ?daily"
      and f: "fl_gt (zscore ?qty j) (Fin threshold)"
      and dj: "anomaly_date a = fst (?daily ! j)"
      and ex: "expected_quantity a = rolling_mean 30 ?qty ! j"
      and z: "z_score a = zscore ?qty j"
      by (rule detect_anomalies_elem)
    have jq: "j < length ?qty" using j by simp
    note F = zscore_flagged [OF jq f]
    have ge: "29 \<le> j" using F by simp
    have w: "window 30 j ?qty = map (\<lambda>k. ?qty ! (j - 29 + k)) [0..<30]"
    proof -
      have "Suc j - 30 = j - 29" by simp
      then show ?thesis using window_nth [of 30 j ?qty] ge jq by simp
    qed
    show ?thesis
      using ge j dj w ex z F by (intro exI [of _ j]) simp
  qed
  show ?thesis unfolding Let_def using A B by blast
qed

lemma spike_in: "30 \<in> anomaly_date ` set (detect_anomalies spike_series 2.5)"
proof -
  have "29 < length (groupby_sum spike_series)"
    unfolding spike_groupby spike_length by simp
  then have "fst (groupby_sum spike_series ! 29)
               \<in> anomaly_date ` set (detect_anomalies spike_series 2.5)"
    using spike_flagged by (rule detect_anomalies_intro)
  then show ?thesis by (simp only: spike_date_29)
qed

theorem anomaly_excludes_degenerate_std_witness:
  "29 < length (groupby_sum flat_series)
   \<and> rolling_std 30 (map snd (groupby_sum flat_series)) ! 0 = NaN
   \<and> fst (groupby_sum flat_series ! 0) \<notin> anomaly_date ` set (detect_anomalies flat_series 2.5)
   \<and> rolling_std 30 (map snd (groupby_sum flat_series)) ! 29 = Fin 0
   \<and> fst (groupby_sum flat_series ! 29) \<notin> anomaly_date ` set (detect_anomalies flat_series 2.5)
   \<and> 30 \<in> anomaly_date ` set (detect_anomalies spike_series 2.5)
   \<and> (\<exists>a z. a \<in> set (detect_anomalies spike_series 2.5) \<and> z_score a = Fin z)"
proof -
  note F = anomaly_excludes_degenerate_std [of flat_series "2.5"]
  note S = anomaly_excludes_degenerate_std [of spike_series "2.5"]
  have l: "29 < length (groupby_sum flat_series)" "0 < length (groupby_sum flat_series)"
    using flat_length by simp_all
  have a: "fst (groupby_sum flat_series ! 0) \<notin> anomaly_date ` set (detect_anomalies flat_series 2.5)"
    using conjunct1 [OF F, rule_format, of 0] l(2) flat_std_0 by blast
  have b: "fst (groupby_sum flat_series ! 29) \<notin> anomaly_date ` set (detect_anomalies flat_series 2.5)"
    using conjunct1 [OF F, rule_format, of 29] l(1) flat_std_29 by blast
  have c: "\<exists>a z. a \<in> set (detect_anomalies spike_series 2.5) \<and> z_score a = Fin z"
    using spike_in conjunct2 [OF S] by blast
  show ?thesis
    using l(1) flat_std_0 a flat_std_29 b spike_in c by (intro conjI)
qed

theorem anomaly_trailing_window_witness:
  "0 < length (groupby_sum spike_series) \<and> (0::nat) < 29
   \<and> fst (groupby_sum spike_series ! 0) \<notin> anomaly_date ` set (detect_anomalies spike_series 2.5)
   \<and> (\<exists>a i. a \<in> set (detect_anomalies spike_series 2.5)
           \<and> 29 \<le> i \<and> i < length (groupby_sum spike_series)
           \<and> anomaly_date a = fst (groupby_sum spike_series ! i))"
proof -
  note T = anomaly_trailing_window [of spike_series "2.5", unfolded Let_def]
  have l: "0 < length (groupby_sum spike_series)"
    unfolding spike_groupby spike_length by simp
  have a: "fst (groupby_sum spike_series ! 0)
             \<notin> anomaly_date ` set (detect_anomalies spike_series 2.5)"
    using conjunct1 [OF T, rule_format, of 0] l by simp
  have b: "\<exists>a i. a \<in> set (detect_anomalies spike_series 2.5)
           \<and> 29 \<le> i \<and> i < length (groupby_sum spike_series)
           \<and> anomaly_date a = fst (groupby_sum spike_series ! i)"
    using spike_in conjunct2 [OF T] by blast
  show ?thesis using l a b by simp
qed

section \<open>Model trainer: insufficient data and the split\<close>

lemma fillna0_notna: "\<not> isna (fillna0 x)"
  by (cases x) (simp_all add: fillna0_def)

lemma X_of_notna: "\<not> list_ex isna (X_of r)"
  by (simp add: X_of_def list_ex_iff fillna0_notna)

lemma train_rows_eq: "train_rows df = filter (\<lambda>r. \<not> isna (quantity r)) df"
  by (simp add: train_rows_def X_of_notna)

lemma train_size_eq: "train_size n = (4 * n) div 5"
proof -
  have "real n * 0.8 = real (4 * n) / real 5" by simp
  then have "\<lfloor>real n * 0.8\<rfloor> = int ((4 * n) div 5)"
    by (simp only: floor_divide_of_nat_eq)
  then show ?thesis by (simp add: train_size_def)
qed

lemma train_model_error_iff:
  "fst (train_model lib self df model_type) = Inl e \<longleftrightarrow>
     e = ValueError ''Insufficient data for model training'' \<and> length (train_rows df) < 100"
  by (auto simp: train_model_def Let_def)

lemma train_model_error_state:
  "length (train_rows df) < 100 \<Longrightarrow> snd (train_model lib self df model_type) = self"
  by (simp add: train_model_def Let_def)

text \<open>
  What the trainer counts.  The feature cells are zero-filled before the mask is built,
  so the mask removes only the rows whose target value is undefined: the trainer fails
  with the insufficient-data error if and only if fewer than 100 rows have a defined
  target value.  Fewer than 100 input rows always raise the error, and then the
  forecaster is left as it was: no scaler and no feature importance is stored.
\<close>

theorem train_model_insufficient_iff:
  "(fst (train_model lib self df model_type)
      = Inl (ValueError ''Insufficient data for model training'')
    \<longleftrightarrow> length (filter (\<lambda>r. \<not> isna (quantity r)) df) < 100)
   \<and> ((\<exists>e. fst (train_model lib self df model_type) = Inl e)
    \<longleftrightarrow> length (filter (\<lambda>r. \<not> isna (quantity r)) df) < 100)
   \<and> (length df < 100 \<longrightarrow>
        fst (train_model lib self df model_type)
          = Inl (ValueError ''Insufficient data for model training'')
        \<and> snd (train_model lib self df model_type) = self)"
proof -
  let ?n = "length (filter (\<lambda>r. \<not> isna (quantity r)) df)"
  have le: "length df < 100 \<Longrightarrow> ?n < 100"
    by (rule le_less_trans [OF length_filter_le])
  have a: "fst (train_model lib self df model_type)
      = Inl (ValueError ''Insufficient data for model training'') \<longleftrightarrow> ?n < 100"
    unfolding train_model_error_iff train_rows_eq by simp
  have b: "(\<exists>e. fst (train_model lib self df model_type) = Inl e) \<longleftrightarrow> ?n < 100"
    unfolding train_model_error_iff train_rows_eq by simp
  have c: "?n < 100 \<Longrightarrow> snd (train_model lib self df model_type) = self"
    using train_model_error_state [of df lib self model_type]
    unfolding train_rows_eq by simp
  show ?thesis using a b c le by blast
qed

lemma sparse_train_rows: "train_rows sparse_frame = sparse_frame"
  unfolding train_rows_eq by (simp add: sparse_frame_def sparse_row_def)

lemma sparse_length: "length sparse_frame = 100"
  by (simp add: sparse_frame_def)

lemma sparse_usable_spec: "usable_rows_spec sparse_frame = []"
  by (simp add: usable_rows_spec_def sparse_frame_def sparse_row_def feature_vector_def)

text \<open>
  C4.  The trainer is to fail with the insufficient-data error if and only if fewer
  than 100 usable rows remain after removing the rows with any undefined feature or
  target value, and the mask of the code, under its comment \<open>Remove rows with NaN\<close>,
  tests the feature cells for that.  The zero fill on the line before defeats the
  test: on a frame of 100 rows whose \<open>quantity_lag30\<close> and \<open>quantity_rolling_mean_30\<close>
  cells are all undefined, which has no usable row, the trainer does not fail.
\<close>

theorem zero_filled_features_counterexample:
  "length (usable_rows_spec sparse_frame) < 100
   \<and> fst (train_model null_sklearn new_forecaster sparse_frame ''gradient_boosting'')
       \<noteq> Inl (ValueError ''Insufficient data for model training'')"
  unfolding train_model_error_iff sparse_train_rows sparse_length sparse_usable_spec
  by simp

theorem train_model_insufficient_iff_witness:
  "length (take 99 sparse_frame) < 100
   \<and> fst (train_model null_sklearn new_forecaster (take 99 sparse_frame) ''gradient_boosting'')
        = Inl (ValueError ''Insufficient data for model training'')
   \<and> snd (train_model null_sklearn new_forecaster (take 99 sparse_frame) ''gradient_boosting'')
        = new_forecaster"
  using train_model_insufficient_iff
          [of null_sklearn new_forecaster "take 99 sparse_frame" "''gradient_boosting''"]
        sparse_length
  by simp

lemma train_model_ok:
  assumes "100 \<le> length (train_rows df)"
  shows "fst (train_model lib self df model_type) =
     (let rows = train_rows df;
          k = train_size (length rows);
          train = take k rows; test = drop k rows;
          scaler = fit_scaler lib (map X_of train);
          m = fit_model lib model_type (map scaler (map X_of train)) (map quantity train);
          y_pred = map (predict m) (map scaler (map X_of test))
      in Inr (m, \<lparr> r2 = r2_score lib (map quantity test) y_pred,
                   mae = mean_absolute_error lib (map quantity test) y_pred,
                   rmse = fl_sqrt (mean_squared_error lib (map quantity test) y_pred) \<rparr>))"
  using assms by (simp add: train_model_def Let_def take_map drop_map comp_def)

lemma sorted_filter_dates:
  "sorted_wrt (<) (map date df) \<Longrightarrow> sorted_wrt (<) (map date (filter P df))"
  by (induction df) auto

text \<open>
  C6.  For a feature frame with strictly ascending dates and at least 100 usable rows,
  the trainer fits the scaler and the model on the first \<open>k\<close> usable rows and evaluates
  on the remaining ones, where \<open>k\<close> is 80% of their number rounded down.  The usable
  rows are the input rows in their order, the two parts are not empty and together are
  the usable rows, and every training date is earlier than every evaluation date.
\<close>

theorem train_test_split_chronological:
  assumes "100 \<le> length (train_rows df)" and "sorted_wrt (<) (map date df)"
  shows "(let rows = train_rows df;
              k = train_size (length rows);
              train = take k rows; test = drop k rows;
              scaler = fit_scaler lib (map X_of train)
          in (\<exists>m e. fst (train_model lib self df model_type) = Inr (m, e)
                \<and> m = fit_model lib model_type (map scaler (map X_of train)) (map quantity train)
                \<and> r2 e = r2_score lib (map quantity test)
                                  (map (predict m) (map scaler (map X_of test))))
           \<and> rows = filter (\<lambda>r. \<not> isna (quantity r)) df
           \<and> train @ test = rows
           \<and> 5 * length train \<le> 4 * length rows \<and> 4 * length rows < 5 * length train + 5
           \<and> train \<noteq> [] \<and> test \<noteq> []
           \<and> (\<forall>a \<in> set train. \<forall>b \<in> set test. date a < date b))"
proof -
  define rows where "rows = train_rows df"
  define k where "k = train_size (length rows)"
  have n: "100 \<le> length rows" using assms(1) by (simp add: rows_def)
  have k4: "k = (4 * length rows) div 5" by (simp add: k_def train_size_eq)
  have kb: "5 * k \<le> 4 * length rows" "4 * length rows < 5 * k + 5" "0 < k" "k < length rows"
    using n unfolding k4 by linarith+
  have lt: "length (take k rows) = k" using kb(4) by simp
  have a: "\<exists>m e. fst (train_model lib self df model_type) = Inr (m, e)
       \<and> m = fit_model lib model_type
               (map (fit_scaler lib (map X_of (take k rows))) (map X_of (take k rows)))
               (map quantity (take k rows))
       \<and> r2 e = r2_score lib (map quantity (drop k rows))
                   (map (predict m)
                     (map (fit_scaler lib (map X_of (take k rows))) (map X_of (drop k rows))))"
    using train_model_ok [OF assms(1), of lib self model_type]
    unfolding Let_def rows_def [symmetric] k_def [symmetric] by (simp add: comp_def)
  have b: "rows = filter (\<lambda>r. \<not> isna (quantity r)) df"
    by (simp add: rows_def train_rows_eq)
  have s: "sorted_wrt (<) (map date (take k rows @ drop k rows))"
    using sorted_filter_dates [OF assms(2)] b by simp
  have c: "\<forall>a \<in> set (take k rows). \<forall>b \<in> set (drop k rows). date a < date b"
    using s unfolding map_append sorted_wrt_append by auto
  have d: "take k rows \<noteq> []" "drop k rows \<noteq> []" using kb(3,4) n by auto
  show ?thesis
    unfolding Let_def rows_def [symmetric] k_def [symmetric]
    using a b c d kb(1,2) lt by simp
qed

lemma sparse_sorted: "sorted_wrt (<) (map date sparse_frame)"
proof -
  have "map date sparse_frame = [1..100]"
    by (simp add: sparse_frame_def sparse_row_def comp_def)
  then show ?thesis by (simp only: sorted_wrt_upto)
qed

theorem train_test_split_chronological_witness:
  "100 \<le> length (train_rows sparse_frame) \<and> sorted_wrt (<) (map date sparse_frame)
   \<and> length (take (train_size 100) (train_rows sparse_frame)) = 80
   \<and> length (drop (train_size 100) (train_rows sparse_frame)) = 20
   \<and> (\<exists>m e. fst (train_model null_sklearn new_forecaster sparse_frame ''random_forest'')
               = Inr (m, e))
   \<and> (\<exists>a b. a \<in> set (take (train_size 100) (train_rows sparse_frame))
           \<and> b \<in> set (drop (train_size 100) (train_rows sparse_frame))
           \<and> date a < date b)"
proof -
  have h1: "100 \<le> length (train_rows sparse_frame)"
    by (simp add: sparse_train_rows sparse_length)
  note T = train_test_split_chronological [OF h1 sparse_sorted,
      of null_sklearn new_forecaster "''random_forest''",
      unfolded Let_def sparse_train_rows sparse_length]
  have k: "train_size 100 = 80" by (simp add: train_size_eq)
  have ne: "take 80 sparse_frame \<noteq> []" "drop 80 sparse_frame \<noteq> []"
    using T unfolding k by blast+
  then obtain a b where ab: "a \<in> set (take 80 sparse_frame)" "b \<in> set (drop 80 sparse_frame)"
    by (meson last_in_set)
  then have "date a < date b" using T unfolding k by blast
  with ab have e: "\<exists>a b. a \<in> set (take 80 sparse_frame) \<and> b \<in> set (drop 80 sparse_frame)
           \<and> date a < date b" by blast
  have m: "\<exists>m e. fst (train_model null_sklearn new_forecaster sparse_frame ''random_forest'')
               = Inr (m, e)" using T by blast
  show ?thesis
    unfolding sparse_train_rows k using h1 sparse_sorted e m
    by (simp add: sparse_train_rows sparse_length)
qed

section \<open>Feature builder: filling undefined values\<close>

lemma isna_iff: "isna x \<longleftrightarrow> x = NaN"
  by (cases x) simp_all

lemma first_defined_Nil [simp]: "first_defined [] = NaN"
  by (simp add: first_defined_def)

lemma first_defined_Cons:
  "first_defined (x # xs) = (if isna x then first_defined xs else x)"
  by (simp add: first_defined_def)

lemma first_defined_NaN_iff: "isna (first_defined xs) \<longleftrightarrow> (\<forall>x \<in> set xs. isna x)"
  by (induction xs) (auto simp: first_defined_Cons)

lemma first_defined_append:
  "first_defined (xs @ ys) =
     (if isna (first_defined xs) then first_defined ys else first_defined xs)"
  by (induction xs) (auto simp: first_defined_Cons)

lemma length_bfill [simp]: "length (bfill xs) = length xs"
  by (induction xs) (simp_all add: Let_def)

lemma length_ffill_from [simp]: "length (ffill_from p xs) = length xs"
  by (induction xs arbitrary: p) (simp_all add: Let_def)

lemma length_fill [simp]: "length (fill xs) = length xs"
  by (simp add: fill_def ffill_def)

lemma bfill_hd: "(case bfill xs of [] \<Rightarrow> NaN | y # _ \<Rightarrow> y) = first_defined xs"
  by (induction xs) (auto simp: Let_def first_defined_Cons split: list.splits)

lemma bfill_Cons: "bfill (x # xs) = first_defined (x # xs) # bfill xs"
  using bfill_hd [of xs] by (simp add: Let_def first_defined_Cons)

lemma split_set: "set xs = set (take i xs) \<union> set (drop i xs)"
  by (metis append_take_drop_id set_append)

lemma fill_from_nth:
  "i < length col \<Longrightarrow>
   ffill_from p (bfill col) ! i =
     (if \<not> isna (first_defined (drop i col)) then first_defined (drop i col)
      else if \<not> isna (first_defined (rev (take i col))) then first_defined (rev (take i col))
      else p)"
proof (induction col arbitrary: p i)
  case Nil
  then show ?case by simp
next
  case (Cons x xs)
  let ?v = "first_defined (x # xs)"
  let ?v' = "if isna ?v then p else ?v"
  have unfold: "ffill_from p (bfill (x # xs)) = ?v' # ffill_from ?v' (bfill xs)"
    by (simp only: bfill_Cons ffill_from.simps Let_def)
  show ?case
  proof (cases i)
    case 0
    then show ?thesis unfolding unfold by simp
  next
    case (Suc j)
    then have j: "j < length xs" using Cons.prems by simp
    have IH: "ffill_from ?v' (bfill xs) ! j =
       (if \<not> isna (first_defined (drop j xs)) then first_defined (drop j xs)
        else if \<not> isna (first_defined (rev (take j xs))) then first_defined (rev (take j xs))
        else ?v')"
      by (rule Cons.IH [OF j])
    show ?thesis
    proof (cases "isna (first_defined (drop j xs))")
      case False
      then show ?thesis using IH Suc unfolding unfold by simp
    next
      case later: True
      show ?thesis
      proof (cases "isna (first_defined (rev (take j xs)))")
        case False
        then show ?thesis using IH Suc later unfolding unfold
          by (simp add: first_defined_append)
      next
        case earlier: True
        have "\<forall>y \<in> set (take j xs) \<union> set (drop j xs). isna y"
          using later earlier unfolding first_defined_NaN_iff by auto
        then have all: "isna (first_defined xs)"
          unfolding first_defined_NaN_iff split_set [where i=j and xs=xs, symmetric] .
        then show ?thesis using IH Suc later earlier unfolding unfold
          by (simp add: first_defined_append first_defined_Cons)
      qed
    qed
  qed
qed

lemma fill_nth: "i < length col \<Longrightarrow> fill col ! i = fill_spec col i"
  using fill_from_nth [of i col NaN]
  by (auto simp: fill_def ffill_def fill_spec_def Let_def isna_iff)

lemma fill_defined:
  assumes "\<exists>x \<in> set col. \<not> isna x" and "i < length col"
  shows "\<not> isna (fill col ! i)"
proof -
  have "\<not> (\<forall>y \<in> set (take i col) \<union> set (drop i col). isna y)"
    using assms(1) unfolding split_set [where i=i and xs=col, symmetric] by simp
  then have "\<not> isna (first_defined (drop i col)) \<or> \<not> isna (first_defined (rev (take i col)))"
    unfolding first_defined_NaN_iff by auto
  then show ?thesis using assms(2) by (auto simp: fill_nth fill_spec_def Let_def)
qed

lemma fill_undefined:
  assumes "\<forall>x \<in> set col. isna x" and "i < length col"
  shows "fill col ! i = NaN"
proof -
  have "\<forall>y \<in> set (take i col) \<union> set (drop i col). isna y"
    using assms(1) unfolding split_set [where i=i and xs=col, symmetric] by simp
  then have "isna (first_defined (drop i col))" "isna (first_defined (rev (take i col)))"
    unfolding first_defined_NaN_iff by auto
  then show ?thesis using assms(2) by (simp add: fill_nth fill_spec_def Let_def isna_iff)
qed

lemma length_shift [simp]: "length (shift k xs) = length xs"
  by (simp add: shift_def)

lemma length_rolling_mean [simp]: "length (rolling_mean w xs) = length xs"
  by (simp add: rolling_mean_def)

lemma length_rolling_std [simp]: "length (rolling_std w xs) = length xs"
  by (simp add: rolling_std_def)

lemma insert_group_dates:
  "map fst acc = map fst acc' \<Longrightarrow>
   map fst (insert_group (d, q) acc) = map fst (insert_group (d, q') acc')"
proof (induction acc arbitrary: acc')
  case Nil
  then show ?case by simp
next
  case (Cons a acc)
  then obtain a' rest where acc': "acc' = a' # rest" by (cases acc') auto
  obtain d1 q1 where a: "a = (d1, q1)" by (cases a)
  obtain d2 q2 where a': "a' = (d2, q2)" by (cases a')
  from Cons.prems have e: "d1 = d2" "map fst acc = map fst rest"
    by (simp_all add: acc' a a')
  show ?case using Cons.IH [OF e(2)] e by (simp add: acc' a a')
qed

lemma foldl_insert_group_dates:
  "map fst acc = map fst acc' \<Longrightarrow>
   map fst (foldl (\<lambda>acc r. insert_group r acc) acc (map (\<lambda>r. (k r, f r)) df)) =
   map fst (foldl (\<lambda>acc r. insert_group r acc) acc' (map (\<lambda>r. (k r, g r)) df))"
proof (induction df arbitrary: acc acc')
  case Nil
  then show ?case by simp
next
  case (Cons r df)
  show ?case
    using Cons.IH [OF insert_group_dates [OF Cons.prems, of "k r" "f r" "g r"]] by simp
qed

lemma groupby_sum_dates:
  "map fst (groupby_sum (map (\<lambda>r. (k r, f r)) df)) =
   map fst (groupby_sum (map (\<lambda>r. (k r, g r)) df))"
  unfolding groupby_sum_def by (rule foldl_insert_group_dates) simp

lemma groupby_sum_length:
  "length (groupby_sum (map (\<lambda>r. (k r, f r)) df)) =
   length (groupby_sum (map (\<lambda>r. (k r, g r)) df))"
  using arg_cong [OF groupby_sum_dates [of k f df g], of length] by simp

lemma map_nth_upt: "length col = n \<Longrightarrow> map (\<lambda>i. col ! i) [0..<n] = col"
  using map_nth [of col] by auto

lemma length_daily_qty:
  "length (daily_qty df) = length (groupby_sum (map (\<lambda>r. (saleDate r, sale_quantity r)) df))"
  by (simp add: daily_qty_def)

lemma create_features_cols:
  "length (create_features df) = length (daily_qty df)"
  "map date (create_features df)
     = map fst (groupby_sum (map (\<lambda>r. (saleDate r, sale_quantity r)) df))"
  "map quantity (create_features df) = fill (map Fin (daily_qty df))"
  "map totalRevenue (create_features df)
     = fill (map (\<lambda>r. Fin (snd r))
               (groupby_sum (map (\<lambda>r. (saleDate r, sale_totalRevenue r)) df)))"
  "map quantity_lag1 (create_features df) = fill (shift 1 (map Fin (daily_qty df)))"
  "map quantity_lag7 (create_features df) = fill (shift 7 (map Fin (daily_qty df)))"
  "map quantity_lag30 (create_features df) = fill (shift 30 (map Fin (daily_qty df)))"
  "map quantity_rolling_mean_7 (create_features df) = fill (rolling_mean 7 (daily_qty df))"
  "map quantity_rolling_std_7 (create_features df) = fill (rolling_std 7 (daily_qty df))"
  "map quantity_rolling_mean_30 (create_features df) = fill (rolling_mean 30 (daily_qty df))"
  unfolding create_features_def Let_def daily_qty_def [symmetric]
  using groupby_sum_length [of saleDate sale_totalRevenue df sale_quantity]
  by (simp_all add: comp_def map_nth_upt length_daily_qty)

lemma shift_all_nan: "length xs \<le> k \<Longrightarrow> x \<in> set (shift k xs) \<Longrightarrow> isna x"
  by (auto simp: shift_def)

lemma shift_some_defined:
  assumes "k < length qty"
  shows "\<exists>x \<in> set (shift k (map Fin qty)). \<not> isna x"
proof -
  have "qty \<noteq> []" using assms by auto
  then have "take (length qty - k) (map Fin qty) \<noteq> []" using assms by simp
  then obtain y where "y \<in> set (take (length qty - k) (map Fin qty))"
    by (meson last_in_set)
  moreover from this have "\<not> isna y" by (auto dest!: in_set_takeD)
  ultimately show ?thesis by (auto simp: shift_def)
qed

lemma rolling_mean_all_nan: "length xs < w \<Longrightarrow> x \<in> set (rolling_mean w xs) \<Longrightarrow> isna x"
  by (auto simp: rolling_mean_def)

lemma rolling_mean_some_defined:
  assumes "0 < w" "w \<le> length xs"
  shows "\<exists>x \<in> set (rolling_mean w xs). \<not> isna x"
proof -
  have i: "w - 1 < length xs" "w \<le> Suc (w - 1)" "\<not> Suc (w - 1) < w" using assms by simp_all
  have "window w (w - 1) xs \<noteq> []" using window_length [OF i(2) i(1)] assms(1) by auto
  then have "\<not> isna (rolling_mean w xs ! (w - 1))"
    using i by (simp add: rolling_mean_nth pd_mean_Fin)
  moreover have "rolling_mean w xs ! (w - 1) \<in> set (rolling_mean w xs)"
    using i(1) by (intro nth_mem) simp
  ultimately show ?thesis by blast
qed

lemma rolling_std_some_defined:
  assumes "2 \<le> w" "w \<le> length xs"
  shows "\<exists>x \<in> set (rolling_std w xs). \<not> isna x"
proof -
  have i: "w - 1 < length xs" "w \<le> Suc (w - 1)" "\<not> Suc (w - 1) < w" using assms by simp_all
  have "length (window w (w - 1) xs) = w" by (rule window_length [OF i(2) i(1)])
  then have "\<not> isna (rolling_std w xs ! (w - 1))"
    using i assms(1) by (simp add: rolling_std_nth pd_std_Fin)
  moreover have "rolling_std w xs ! (w - 1) \<in> set (rolling_std w xs)"
    using i(1) by (intro nth_mem) simp
  ultimately show ?thesis by blast
qed

lemma Fin_some_defined: "xs \<noteq> [] \<Longrightarrow> \<exists>x \<in> set (map f xs). \<not> isna x" if "\<And>y. \<not> isna (f y)"
  using that by (cases xs) auto

lemma col_nth: "i < length fr \<Longrightarrow> f (fr ! i) = map f fr ! i"
  by simp

lemma create_features_defined:
  assumes n: "31 \<le> length (daily_qty df)" and r: "r \<in> set (create_features df)"
  shows "\<not> list_ex isna (feature_vector r) \<and> \<not> isna (quantity r) \<and> \<not> isna (totalRevenue r)"
proof -
  let ?q = "daily_qty df"
  from r obtain i where i: "i < length (create_features df)"
    and ri: "r = create_features df ! i" by (auto simp: in_set_conv_nth)
  note f = col_nth [OF i, folded ri]
  have il: "i < length ?q" using i by (simp add: create_features_cols(1))
  have ne: "?q \<noteq> []" using n by auto
  have rev_len: "length (groupby_sum (map (\<lambda>r. (saleDate r, sale_totalRevenue r)) df)) = length ?q"
    using groupby_sum_length [of saleDate sale_totalRevenue df sale_quantity]
    by (simp add: length_daily_qty)
  have "\<not> isna (quantity r)"
    unfolding f [of quantity] create_features_cols
    using il ne by (intro fill_defined Fin_some_defined) simp_all
  moreover have "\<not> isna (totalRevenue r)"
    unfolding f [of totalRevenue] create_features_cols
    using il ne rev_len by (intro fill_defined Fin_some_defined) auto
  moreover have "\<not> isna (quantity_lag1 r)"
    unfolding f [of quantity_lag1] create_features_cols
    using il n by (intro fill_defined shift_some_defined) simp_all
  moreover have "\<not> isna (quantity_lag7 r)"
    unfolding f [of quantity_lag7] create_features_cols
    using il n by (intro fill_defined shift_some_defined) simp_all
  moreover have "\<not> isna (quantity_lag30 r)"
    unfolding f [of quantity_lag30] create_features_cols
    using il n by (intro fill_defined shift_some_defined) simp_all
  moreover have "\<not> isna (quantity_rolling_mean_7 r)"
    unfolding f [of quantity_rolling_mean_7] create_features_cols
    using il n by (intro fill_defined rolling_mean_some_defined) simp_all
  moreover have "\<not> isna (quantity_rolling_std_7 r)"
    unfolding f [of quantity_rolling_std_7] create_features_cols
    using il n by (intro fill_defined rolling_std_some_defined) simp_all
  moreover have "\<not> isna (quantity_rolling_mean_30 r)"
    unfolding f [of quantity_rolling_mean_30] create_features_cols
    using il n by (intro fill_defined rolling_mean_some_defined) simp_all
  ultimately show ?thesis by (simp add: feature_vector_def)
qed

lemma create_features_lag30_undefined:
  assumes n: "length (daily_qty df) \<le> 30" and r: "r \<in> set (create_features df)"
  shows "quantity_lag30 r = NaN"
proof -
  from r obtain i where i: "i < length (create_features df)"
    and ri: "r = create_features df ! i" by (auto simp: in_set_conv_nth)
  note f = col_nth [OF i, folded ri]
  have il: "i < length (daily_qty df)" using i by (simp add: create_features_cols(1))
  show ?thesis
    unfolding f [of quantity_lag30] create_features_cols
    using il n by (intro fill_undefined ballI shift_all_nan [of _ 30]) simp_all
qed

lemma create_features_mean30_undefined:
  assumes n: "length (daily_qty df) < 30" and r: "r \<in> set (create_features df)"
  shows "quantity_rolling_mean_30 r = NaN"
proof -
  from r obtain i where i: "i < length (create_features df)"
    and ri: "r = create_features df ! i" by (auto simp: in_set_conv_nth)
  note f = col_nth [OF i, folded ri]
  have il: "i < length (daily_qty df)" using i by (simp add: create_features_cols(1))
  show ?thesis
    unfolding f [of quantity_rolling_mean_30] create_features_cols
    using il n by (intro fill_undefined ballI rolling_mean_all_nan [of _ 30]) simp_all
qed

text \<open>
  On a frame built by the feature builder the rows the trainer keeps and the usable
  rows of the specification are counted alike: a series of at least 31 days has no
  undefined cell, and a shorter one has fewer than 100 rows.  The zero fill of the
  trainer makes a difference only on a frame built otherwise.
\<close>

lemma train_model_feature_builder_frames:
  "fst (train_model lib self (create_features df) model_type)
      = Inl (ValueError ''Insufficient data for model training'')
   \<longleftrightarrow> length (usable_rows_spec (create_features df)) < 100"
proof (cases "31 \<le> length (daily_qty df)")
  case True
  have u: "usable_rows_spec (create_features df) = create_features df"
    unfolding usable_rows_spec_def using create_features_defined [OF True]
    by (intro filter_True) simp
  have t: "train_rows (create_features df) = create_features df"
    unfolding train_rows_eq using create_features_defined [OF True]
    by (intro filter_True) simp
  show ?thesis unfolding train_model_error_iff u t by simp
next
  case False
  then have "length (create_features df) < 100"
    by (simp add: create_features_cols(1))
  then have a: "length (train_rows (create_features df)) < 100"
    and b: "length (usable_rows_spec (create_features df)) < 100"
    unfolding train_rows_def usable_rows_spec_def
    by (rule le_less_trans [OF length_filter_le])+
  show ?thesis unfolding train_model_error_iff using a b by simp
qed

text \<open>
  C5, as the code has it.  The feature builder has one row per distinct date and
  fills each lag and rolling column on its own, back-filling from the nearest later
  defined value of that column and then forward-filling.  A series of at least 31
  days has no undefined feature, quantity or revenue.  A series of at most 30 days,
  so also one of fewer than two distinct dates, has an undefined lag-30 feature in
  every row, and one of fewer than 30 days an undefined rolling-30 mean as well.
\<close>

theorem create_features_fill:
  "(let fr = create_features df; qty = daily_qty df; n = length qty in
      length fr = n
    \<and> map quantity_lag1 fr = fill (shift 1 (map Fin qty))
    \<and> map quantity_lag7 fr = fill (shift 7 (map Fin qty))
    \<and> map quantity_lag30 fr = fill (shift 30 (map Fin qty))
    \<and> map quantity_rolling_mean_7 fr = fill (rolling_mean 7 qty)
    \<and> map quantity_rolling_std_7 fr = fill (rolling_std 7 qty)
    \<and> map quantity_rolling_mean_30 fr = fill (rolling_mean 30 qty)
    \<and> (31 \<le> n \<longrightarrow>
         (\<forall>r \<in> set fr. \<not> list_ex isna (feature_vector r)
                       \<and> \<not> isna (quantity r) \<and> \<not> isna (totalRevenue r)))
    \<and> (n \<le> 30 \<longrightarrow> (\<forall>r \<in> set fr. quantity_lag30 r = NaN))
    \<and> (n < 30 \<longrightarrow> (\<forall>r \<in> set fr. quantity_rolling_mean_30 r = NaN)))
   \<and> (\<forall>col i. i < length col \<longrightarrow> fill col ! i = fill_spec col i)"
  unfolding Let_def
  using create_features_cols [of df] create_features_defined [of df]
    create_features_lag30_undefined [of df] create_features_mean30_undefined [of df] fill_nth
  by blast

lemma daily_qty_days:
  "daily_qty (map day_sale [a..b]) = replicate (nat (b - a + 1)) 10"
proof -
  have e: "map (\<lambda>r. (saleDate r, sale_quantity r)) (map day_sale [a..b]) = map (\<lambda>d. (d, 10)) [a..b]"
    by (simp add: day_sale_def comp_def)
  show ?thesis
    unfolding daily_qty_def e using groupby_sum_const [OF sorted_wrt_upto, of 10 a b] by simp
qed

lemma daily_qty_single: "daily_qty single_sale = [10]"
  by (simp add: daily_qty_def single_sale_def day_sale_def groupby_sum_def)

lemma fill_all_nan:
  assumes "\<forall>x \<in> set col. isna x"
  shows "fill col = replicate (length col) NaN"
  using assms by (intro nth_equalityI) (simp_all add: fill_undefined)

lemma lag30_short:
  assumes "length (daily_qty df) \<le> 30"
  shows "map quantity_lag30 (create_features df) = replicate (length (daily_qty df)) NaN"
proof -
  have "\<forall>x \<in> set (shift 30 (map Fin (daily_qty df))). isna x"
    using shift_all_nan [of "map Fin (daily_qty df)" 30] assms by simp
  then show ?thesis
    unfolding create_features_cols using fill_all_nan by fastforce
qed

lemma mean30_short:
  assumes "length (daily_qty df) < 30"
  shows "map quantity_rolling_mean_30 (create_features df) = replicate (length (daily_qty df)) NaN"
proof -
  have "\<forall>x \<in> set (rolling_mean 30 (daily_qty df)). isna x"
    using rolling_mean_all_nan [of "daily_qty df" 30] assms by simp
  then show ?thesis
    unfolding create_features_cols using fill_all_nan by fastforce
qed

text \<open>
  A single sale gives one row whose quantity is 10 and whose lag-30 and rolling-30
  features are still undefined after the fill; a series of exactly 30 days has an
  undefined lag-30 feature in every row.
\<close>

theorem short_series_lag30_counterexample:
  "map quantity (create_features single_sale) = [Fin 10]
   \<and> map quantity_lag30 (create_features single_sale) = [NaN]
   \<and> map quantity_rolling_mean_30 (create_features single_sale) = [NaN]
   \<and> length (daily_qty thirty_sales) = 30
   \<and> map quantity_lag30 (create_features thirty_sales) = replicate 30 NaN"
proof -
  have a: "map quantity (create_features single_sale) = [Fin 10]"
    unfolding create_features_cols daily_qty_single by (simp add: fill_def ffill_def)
  have b: "map quantity_lag30 (create_features single_sale) = [NaN]"
    using lag30_short [of single_sale] by (simp add: daily_qty_single)
  have c: "map quantity_rolling_mean_30 (create_features single_sale) = [NaN]"
    using mean30_short [of single_sale] by (simp add: daily_qty_single)
  have d: "length (daily_qty thirty_sales) = 30"
    by (simp add: thirty_sales_def daily_qty_days)
  have e: "map quantity_lag30 (create_features thirty_sales) = replicate 30 NaN"
    using lag30_short [of thirty_sales] d by simp
  show ?thesis using a b c d e by simp
qed

theorem create_features_fill_witness:
  "31 \<le> length (daily_qty month_sales)
   \<and> (\<exists>r. r \<in> set (create_features month_sales)
          \<and> \<not> list_ex isna (feature_vector r) \<and> \<not> isna (quantity r))
   \<and> length (daily_qty single_sale) < 30
   \<and> (\<exists>r. r \<in> set (create_features single_sale)
          \<and> quantity_lag30 r = NaN \<and> quantity_rolling_mean_30 r = NaN)
   \<and> (0::nat) < length [NaN, Fin 1]
   \<and> fill [NaN, Fin 1] ! 0 = fill_spec [NaN, Fin 1] 0"
proof -
  note M = create_features_fill [of month_sales, unfolded Let_def]
  note S = create_features_fill [of single_sale, unfolded Let_def]
  have lm: "length (daily_qty month_sales) = 31"
    by (simp add: month_sales_def daily_qty_days)
  have ls: "length (daily_qty single_sale) = 1" by (simp add: daily_qty_single)
  have "length (create_features month_sales) = 31" using M lm by simp
  then obtain r where r: "r \<in> set (create_features month_sales)"
    by (cases "create_features month_sales") auto
  have a: "\<exists>r. r \<in> set (create_features month_sales)
          \<and> \<not> list_ex isna (feature_vector r) \<and> \<not> isna (quantity r)"
    using M r lm by (intro exI [of _ r]) simp
  have "length (create_features single_sale) = 1" using S ls by simp
  then obtain r' where r': "r' \<in> set (create_features single_sale)"
    by (cases "create_features single_sale") auto
  have b: "\<exists>r. r \<in> set (create_features single_sale)
          \<and> quantity_lag30 r = NaN \<and> quantity_rolling_mean_30 r = NaN"
    using S r' ls by (intro exI [of _ r']) simp
  have c: "fill [NaN, Fin 1] ! 0 = fill_spec [NaN, Fin 1] 0"
    using S by simp
  show ?thesis using a b c lm ls by simp
qed

section \<open>Recommendation generator\<close>

lemma py_max_fold_Fin:
  "foldl (\<lambda>m y. if fl_gt y m then y else m) (Fin a) (map Fin xs) = Fin (fold max xs a)"
  by (induction xs arbitrary: a) (simp_all add: fl_gt_def max_def)

lemma py_min_fold_Fin:
  "foldl (\<lambda>m y. if fl_less y m then y else m) (Fin a) (map Fin xs) = Fin (fold min xs a)"
  by (induction xs arbitrary: a) (simp_all add: min_def)

lemma py_max_Fin: "xs \<noteq> [] \<Longrightarrow> py_max (map Fin xs) = Inr (Fin (Max (set xs)))"
  using Max.set_eq_fold [symmetric]
  by (cases xs) (simp_all add: py_max_fold_Fin del: set_simps)

lemma py_min_Fin: "xs \<noteq> [] \<Longrightarrow> py_min (map Fin xs) = Inr (Fin (Min (set xs)))"
  using Min.set_eq_fold [symmetric]
  by (cases xs) (simp_all add: py_min_fold_Fin del: set_simps)

lemma np_mean_Fin: "xs \<noteq> [] \<Longrightarrow> np_mean (map Fin xs) = Fin (sum_list xs / real (length xs))"
  by (simp add: np_mean_def fl_sum_Fin)

lemma spike_mean_nonzero:
  assumes "xs \<noteq> []" and "\<forall>x \<in> set xs. (0::real) \<le> x"
    and "sum_list xs / real (length xs) * 1.5 < Max (set xs)"
  shows "sum_list xs / real (length xs) \<noteq> 0"
proof
  assume z: "sum_list xs / real (length xs) = 0"
  have "real (length xs) \<noteq> 0" using assms(1) by simp
  with z have "sum_list xs = 0" by simp
  then have "\<forall>x \<in> set xs. x = 0"
    using assms(2) by (subst (asm) sum_list_nonneg_eq_0_iff) auto
  moreover have "Max (set xs) \<in> set xs" using assms(1) by (intro Max_in) simp_all
  ultimately have "Max (set xs) = 0" by blast
  with assms(3) z show False by simp
qed

lemma generate_recommendations_Fin:
  assumes xs: "xs \<noteq> []" and nn: "\<forall>x \<in> set xs. 0 \<le> x"
    and q: "map predicted_quantity forecasts = map Fin xs"
    and rp: "reorder_point p = Fin rp" and ss: "safety_stock p = Fin ss"
  shows "generate_recommendations store_id forecasts p =
     Inr ((if sum_list xs / real (length xs) * 1.5 < Max (set xs)
           then [high_demand_alert
                  (if 0 \<le> (Max (set xs) - sum_list xs / real (length xs))
                              / (sum_list xs / real (length xs)) * 100
                   then \<lfloor>(Max (set xs) - sum_list xs / real (length xs))
                              / (sum_list xs / real (length xs)) * 100\<rfloor>
                   else \<lceil>(Max (set xs) - sum_list xs / real (length xs))
                              / (sum_list xs / real (length xs)) * 100\<rceil>)]
           else [])
          @ (if Min (set xs) < sum_list xs / real (length xs) * 0.5
             then [low_demand_alert] else [])
          @ [inventory_optimization (if 0 \<le> rp then \<lfloor>rp\<rfloor> else \<lceil>rp\<rceil>)
                                    (if 0 \<le> ss then \<lfloor>ss\<rfloor> else \<lceil>ss\<rceil>)])"
proof (cases "sum_list xs / real (length xs) * 1.5 < Max (set xs)")
  case True
  then have nz: "sum_list xs / real (length xs) \<noteq> 0"
    using spike_mean_nonzero [OF xs nn] by simp
  show ?thesis
    unfolding generate_recommendations_def Let_def q
      py_max_Fin [OF xs] py_min_Fin [OF xs] np_mean_Fin [OF xs]
    using True nz by (simp add: rp ss fl_gt_def fl_sub_def)
next
  case False
  show ?thesis
    unfolding generate_recommendations_def Let_def q
      py_max_Fin [OF xs] py_min_Fin [OF xs] np_mean_Fin [OF xs]
    using False by (simp add: rp ss fl_gt_def fl_sub_def)
qed

lemma priorities [simp]:
  "priority (high_demand_alert pct) = 1"
  "priority low_demand_alert = 2"
  "priority (inventory_optimization a b) = 3"
  by (simp_all add: high_demand_alert_def low_demand_alert_def inventory_optimization_def)

text \<open>
  C9, as the code has it.  For a non-empty forecast list of finite quantities that are
  not negative, and inventory parameters whose reorder point and safety stock are
  finite, the generator returns a list: the priority-1 alert exactly when the maximum
  forecast exceeds 1.5 times the mean, then the priority-2 alert exactly when the
  minimum is below 0.5 times the mean, then the priority-3 inventory recommendation,
  which is there exactly once.  The list is ordered by ascending priority.
\<close>

theorem generate_recommendations_rules:
  assumes "xs \<noteq> []" and "\<forall>x \<in> set xs. 0 \<le> x"
    and "map predicted_quantity forecasts = map Fin xs"
    and "reorder_point p = Fin rp" and "safety_stock p = Fin ss"
  shows "(let avg = sum_list xs / real (length xs);
              spike = (avg * 1.5 < Max (set xs));
              low = (Min (set xs) < avg * 0.5)
          in \<exists>recs pct a b.
               generate_recommendations store_id forecasts p = Inr recs
             \<and> recs = (if spike then [high_demand_alert pct] else [])
                      @ (if low then [low_demand_alert] else [])
                      @ [inventory_optimization a b]
             \<and> (spike \<longrightarrow> py_int (Fin ((Max (set xs) - avg) / avg * 100)) = Inr pct)
             \<and> py_int (reorder_point p) = Inr a \<and> py_int (safety_stock p) = Inr b
             \<and> length (filter (\<lambda>r. priority r = 3) recs) = 1
             \<and> length (filter (\<lambda>r. priority r = 1) recs) = (if spike then 1 else 0)
             \<and> length (filter (\<lambda>r. priority r = 2) recs) = (if low then 1 else 0)
             \<and> sorted (map priority recs))"
  unfolding Let_def generate_recommendations_Fin [OF assms]
  by (simp add: assms(4,5))

text \<open>
  The inventory parameters of a single-day history have an undefined reorder point;
  with them the generator fails at \<open>int(inventory_params["reorder_point"])\<close> and emits
  no recommendation.
\<close>

theorem undefined_reorder_point_counterexample:
  "reorder_point (optimize_inventory [(1, 10)] 0.1 50) = NaN
   \<and> generate_recommendations 1 [forecast_of 2 10] (optimize_inventory [(1, 10)] 0.1 50)
       = Inl (ValueError ''cannot convert float NaN to integer'')"
  by (simp add: inv_eval generate_recommendations_def forecast_of_def np_mean_def fl_gt_def)

theorem generate_recommendations_rules_witness:
  "[4, 40, 16] \<noteq> ([] :: real list)
   \<and> (0::real) \<le> 4 \<and> (0::real) \<le> 40 \<and> (0::real) \<le> 16
   \<and> map predicted_quantity three_forecasts = map Fin [4, 40, 16]
   \<and> reorder_point (optimize_inventory [(1, 5), (2, 5)] 0.1 50) = Fin 35
   \<and> safety_stock (optimize_inventory [(1, 5), (2, 5)] 0.1 50) = Fin 0
   \<and> (\<exists>recs. generate_recommendations 1 three_forecasts
                 (optimize_inventory [(1, 5), (2, 5)] 0.1 50) = Inr recs
             \<and> map priority recs = [1, 2, 3])"
proof -
  have q: "map predicted_quantity three_forecasts = map Fin [4, 40, 16]"
    by (simp add: three_forecasts_def forecast_of_def)
  have rp: "reorder_point (optimize_inventory [(1, 5), (2, 5)] 0.1 50) = Fin 35"
    by (simp add: inv_eval)
  have ss: "safety_stock (optimize_inventory [(1, 5), (2, 5)] 0.1 50) = Fin 0"
    by (simp add: inv_eval)
  have nn: "\<forall>x \<in> set [4, 40, 16 :: real]. 0 \<le> x" by simp
  have ne: "[4, 40, 16] \<noteq> ([] :: real list)" by simp
  note T = generate_recommendations_rules [OF ne nn q rp ss, of 1, unfolded Let_def]
  have "\<exists>recs. generate_recommendations 1 three_forecasts
                 (optimize_inventory [(1, 5), (2, 5)] 0.1 50) = Inr recs
             \<and> map priority recs = [1, 2, 3]"
    using T by auto
  then show ?thesis using q rp ss by simp
qed

section \<open>Forecaster: the forecasts and the input frame\<close>







lemma forecast_loop_frames:
  assumes "cur < length st"
  shows "fst (forecast_loop self mdl n st cur fcs) = forecast_frames self mdl n (st ! cur) fcs
       \<and> take (length st) (snd (forecast_loop self mdl n st cur fcs)) = st"
  using assms
proof (induction n arbitrary: st cur fcs)
  case 0
  then show ?case by simp
next
  case (Suc n)
  show ?case
  proof (cases "forecast_step self mdl (st ! cur)")
    case (Inl e)
    then show ?thesis by simp
  next
    case (Inr p)
    obtain f row where p: "p = (f, row)" by (cases p)
    let ?st1 = "st @ [[row]]"
    let ?st2 = "?st1 @ [st ! cur @ [row]]"
    have c1: "?st1 ! cur = st ! cur" using Suc.prems by (simp add: nth_append)
    have step: "forecast_loop self mdl (Suc n) st cur fcs
                  = forecast_loop self mdl n ?st2 (Suc (length st)) (fcs @ [f])"
      using Inr p c1 by (simp add: alloc_def Let_def nth_append)
    have lt: "Suc (length st) < length ?st2" by simp
    have c2: "?st2 ! Suc (length st) = st ! cur @ [row]"
      by (simp add: nth_append)
    from Suc.IH [OF lt, of "fcs @ [f]"]
    have a: "fst (forecast_loop self mdl n ?st2 (Suc (length st)) (fcs @ [f]))
               = forecast_frames self mdl n (st ! cur @ [row]) (fcs @ [f])"
      and b: "take (length ?st2) (snd (forecast_loop self mdl n ?st2 (Suc (length st)) (fcs @ [f])))
               = ?st2"
      unfolding c2 by simp_all
    have "take (length st) (take (length ?st2)
             (snd (forecast_loop self mdl n ?st2 (Suc (length st)) (fcs @ [f])))) = st"
      unfolding b by simp
    then have b': "take (length st)
             (snd (forecast_loop self mdl n ?st2 (Suc (length st)) (fcs @ [f]))) = st"
      by (simp add: min_def)
    show ?thesis unfolding step using a b' Inr p by simp
  qed
qed

lemma forecast_demand_frames:
  assumes "df < length st"
  shows "fst (forecast_demand self mdl st df days_ahead)
           = forecast_frames self mdl (nat days_ahead) (tail 30 (st ! df)) []
       \<and> take (length st) (snd (forecast_demand self mdl st df days_ahead)) = st"
proof -
  let ?t = "tail 30 (st ! df)"
  let ?st2 = "(st @ [?t]) @ [?t]"
  have e: "forecast_demand self mdl st df days_ahead
             = forecast_loop self mdl (nat days_ahead) ?st2 (Suc (length st)) []"
    by (simp add: forecast_demand_def alloc_def Let_def nth_append)
  have lt: "Suc (length st) < length ?st2" by simp
  have c: "?st2 ! Suc (length st) = ?t" by (simp add: nth_append)
  note L = forecast_loop_frames [OF lt, of self mdl "nat days_ahead" "[]", unfolded c]
  have "take (length st) (take (length ?st2)
          (snd (forecast_loop self mdl (nat days_ahead) ?st2 (Suc (length st)) []))) = st"
    using L by simp
  then have "take (length st)
          (snd (forecast_loop self mdl (nat days_ahead) ?st2 (Suc (length st)) [])) = st"
    by (simp add: min_def)
  then show ?thesis unfolding e using L by simp
qed









text \<open>
  C10.  The forecaster does not change its input.  After the call the frame at the
  reference \<open>df\<close>, and every other frame the store held before, is as it was: the loop
  works on a copy of the last 30 rows, and every frame it builds is a new object.
  Repeated forecasting is reproducible: the forecasts depend on the content of the
  frame alone, so a second call on the resulting store, and a call on any store that
  holds the same frame, return the same forecasts.
\<close>

theorem forecast_demand_frame_unchanged:
  assumes "df < length st"
  shows "take (length st) (snd (forecast_demand self mdl st df days_ahead)) = st
       \<and> snd (forecast_demand self mdl st df days_ahead) ! df = st ! df
       \<and> fst (forecast_demand self mdl (snd (forecast_demand self mdl st df days_ahead)) df days_ahead)
           = fst (forecast_demand self mdl st df days_ahead)
       \<and> (\<forall>st2 df2. df2 < length st2 \<and> st2 ! df2 = st ! df \<longrightarrow>
            fst (forecast_demand self mdl st2 df2 days_ahead)
              = fst (forecast_demand self mdl st df days_ahead))"
proof -
  let ?st' = "snd (forecast_demand self mdl st df days_ahead)"
  have t: "take (length st) ?st' = st"
    using forecast_demand_frames [OF assms] by simp
  have "?st' ! df = take (length st) ?st' ! df" using assms by simp
  then have n: "?st' ! df = st ! df" unfolding t .
  have "length (take (length st) ?st') = length st" unfolding t ..
  then have "length st \<le> length ?st'" by simp
  then have lt: "df < length ?st'" using assms by simp
  have same: "fst (forecast_demand self mdl st2 df2 days_ahead)
              = fst (forecast_demand self mdl st df days_ahead)"
    if "df2 < length st2" and "st2 ! df2 = st ! df" for st2 df2
  proof -
    have "fst (forecast_demand self mdl st2 df2 days_ahead)
          = forecast_frames self mdl (nat days_ahead) (tail 30 (st2 ! df2)) []"
      using forecast_demand_frames [OF that(1)] by simp
    also have "\<dots> = fst (forecast_demand self mdl st df days_ahead)"
      unfolding that(2) using forecast_demand_frames [OF assms] by simp
    finally show ?thesis .
  qed
  have r: "fst (forecast_demand self mdl ?st' df days_ahead)
             = fst (forecast_demand self mdl st df days_ahead)"
    by (rule same [OF lt n])
  have g: "\<forall>st2 df2. df2 < length st2 \<and> st2 ! df2 = st ! df \<longrightarrow>
            fst (forecast_demand self mdl st2 df2 days_ahead)
              = fst (forecast_demand self mdl st df days_ahead)"
    using same by blast
  show ?thesis by (intro conjI) (rule t n r g)+
qed

theorem forecast_demand_frame_unchanged_witness:
  "snd (forecast_demand fitted_forecaster (constant_model 3) [two_day_frame] 0 2) ! 0 = two_day_frame
   \<and> take 1 (snd (forecast_demand fitted_forecaster (constant_model 3) [two_day_frame] 0 2))
       = [two_day_frame]
   \<and> fst (forecast_demand fitted_forecaster (constant_model 3)
            (snd (forecast_demand fitted_forecaster (constant_model 3) [two_day_frame] 0 2)) 0 2)
       = fst (forecast_demand fitted_forecaster (constant_model 3) [two_day_frame] 0 2)
   \<and> fst (forecast_demand fitted_forecaster (constant_model 3) [[], two_day_frame] 1 2)
       = fst (forecast_demand fitted_forecaster (constant_model 3) [two_day_frame] 0 2)"
proof -
  have h: "(0::nat) < length [two_day_frame]" by simp
  note T = forecast_demand_frame_unchanged [OF h, of fitted_forecaster "constant_model 3" 2]
  have a: "take 1 (snd (forecast_demand fitted_forecaster (constant_model 3) [two_day_frame] 0 2))
       = [two_day_frame]" using conjunct1 [OF T] by simp
  have b: "snd (forecast_demand fitted_forecaster (constant_model 3) [two_day_frame] 0 2) ! 0 = two_day_frame"
    using conjunct1 [OF conjunct2 [OF T]] by simp
  note c = conjunct1 [OF conjunct2 [OF conjunct2 [OF T]]]
  have d: "fst (forecast_demand fitted_forecaster (constant_model 3) [[], two_day_frame] 1 2)
       = fst (forecast_demand fitted_forecaster (constant_model 3) [two_day_frame] 0 2)"
    using conjunct2 [OF conjunct2 [OF conjunct2 [OF T]], rule_format, of 1 "[[], two_day_frame]"]
    by simp
  show ?thesis by (intro conjI) (rule a b c d)+
qed

end
